theory Spec2Isabelle
  imports Complex_Main "HOL-Library.Word"
begin

unbundle bit_operations_syntax

section \<open>Common types\<close>

text \<open>
  Win32 scalar types. \<open>DWORD\<close> is an unsigned and \<open>LONG\<close> a signed 32-bit integer; both are
  32-bit words here (\<open>unat\<close> reads a \<open>DWORD\<close>, \<open>sint\<close> a \<open>LONG\<close>). Handles and remote
  addresses are opaque numbers, \<open>0\<close> being \<open>NULL\<close>/\<open>nullptr\<close>.
\<close>

type_synonym DWORD = "32 word"
type_synonym LONG = "32 word"
type_synonym HWND = nat
type_synonym HANDLE = nat
type_synonym LPVOID = nat
type_synonym HMODULE = nat

section \<open>std::string operations\<close>

definition dq :: char where
  "dq = CHR 0x22"

fun starts_with :: "string \<Rightarrow> string \<Rightarrow> bool" where
  "starts_with s [] = True"
| "starts_with [] (n # ns) = False"
| "starts_with (c # cs) (n # ns) = (c = n \<and> starts_with cs ns)"

text \<open>\<open>std::string::find(needle)\<close>: the first position where the needle occurs, \<open>None\<close> for \<open>npos\<close>.\<close>

fun str_find :: "string \<Rightarrow> string \<Rightarrow> nat option" where
  "str_find [] needle = (if needle = [] then Some 0 else None)"
| "str_find (c # cs) needle =
     (if starts_with (c # cs) needle then Some 0 else map_option Suc (str_find cs needle))"

definition contains :: "string \<Rightarrow> string \<Rightarrow> bool" where
  "contains s needle = (str_find s needle \<noteq> None)"

fun first_index :: "('a \<Rightarrow> bool) \<Rightarrow> 'a list \<Rightarrow> nat option" where
  "first_index P [] = None"
| "first_index P (x # xs) = (if P x then Some 0 else map_option Suc (first_index P xs))"

text \<open>\<open>std::string::find_first_of(chars, pos)\<close>.\<close>

definition find_first_of :: "string \<Rightarrow> string \<Rightarrow> nat \<Rightarrow> nat option" where
  "find_first_of s chars pos =
     map_option (\<lambda>i. pos + i) (first_index (\<lambda>c. c \<in> set chars) (drop pos s))"

text \<open>\<open>std::string::substr(pos, n)\<close> for \<open>pos \<le> size\<close> (every call below is in that range).\<close>

definition substr :: "string \<Rightarrow> nat \<Rightarrow> nat \<Rightarrow> string" where
  "substr s pos n = take n (drop pos s)"

section \<open>Single-precision arithmetic\<close>

text \<open>
  The time stamp of an event and the fade of an overlay message are computed in \<open>float\<close>. A
  \<open>float\<close> value is represented here by the rational number it denotes, and \<open>round_float\<close>
  is the rounding of an exact result to the nearest \<open>float\<close>, ties to the even significand.
  A \<open>float\<close> has 24 significant bits and exponents from \<open>-126\<close> to \<open>127\<close>: \<open>binade n x\<close>
  is the exponent \<open>e\<close> of the binade \<open>[2^e, 2^(e+1))\<close> that holds \<open>x\<close>, searched downwards
  from \<open>n - 126\<close> (from 127 for \<open>n = 253\<close>) and never below \<open>-126\<close>, where the subnormal
  numbers begin, so that \<open>ulp x\<close> is the distance between neighbouring \<open>float\<close> values
  around \<open>x\<close>. Every arithmetic operation and conversion of the source is the exact operation
  followed by \<open>round_float\<close>, as it is when each intermediate result is held in single
  precision (SSE arithmetic). Infinities and NaNs are not represented: no result below exceeds
  \<open>2^32\<close>, and the one division by zero is commented where it occurs.
\<close>

fun binade :: "nat \<Rightarrow> rat \<Rightarrow> int" where
  "binade 0 x = - 126"
| "binade (Suc n) x =
     (if 2 powi (int (Suc n) - 126) \<le> x then int (Suc n) - 126 else binade n x)"

definition round_half_even :: "rat \<Rightarrow> int" where
  "round_half_even r =
     (let f = \<lfloor>r\<rfloor>; d = r - of_int f
      in if d < 1 / 2 then f else if 1 / 2 < d then f + 1 else if even f then f else f + 1)"

definition ulp :: "rat \<Rightarrow> rat" where
  "ulp x = 2 powi (binade 253 \<bar>x\<bar> - 23)"

definition round_float :: "rat \<Rightarrow> rat" where
  "round_float x = sgn x * of_int (round_half_even (\<bar>x\<bar> / ulp x)) * ulp x"

section \<open>GameDataInterface: telemetry relay\<close>

record PlayerState =
  positionX :: rat
  positionY :: rat
  damage :: rat
  stocks :: int
  character :: int
  actionState :: int
  isInHitstun :: bool
  isInShieldstun :: bool
  isOffstage :: bool

record GameState =
  players :: "PlayerState list"
  activePlayerCount :: int
  frameCount :: int
  stage :: int
  isInGame :: bool
  isPaused :: bool
  gameTimer :: rat

datatype GameEvent_Type =
  GAME_START | GAME_END | STOCK_LOST | COMBO_START | COMBO_END | KILL | TECH | EDGEGUARD
  | NEUTRAL_WIN

text \<open>The enumerator values the compiler assigns, in declaration order.\<close>

fun Type_value :: "GameEvent_Type \<Rightarrow> nat" where
  "Type_value GAME_START = 0"
| "Type_value GAME_END = 1"
| "Type_value STOCK_LOST = 2"
| "Type_value COMBO_START = 3"
| "Type_value COMBO_END = 4"
| "Type_value KILL = 5"
| "Type_value TECH = 6"
| "Type_value EDGEGUARD = 7"
| "Type_value NEUTRAL_WIN = 8"

text \<open>The \<open>timestamp\<close> is a \<open>float\<close>.\<close>

record GameEvent =
  ev_type :: GameEvent_Type
  playerId :: int
  timestamp :: rat
  data :: string

record InjectedProcess =
  processId :: DWORD
  processHandle :: HANDLE
  dllModule :: HMODULE

text \<open>
  The members of \<open>GameDataInterface\<close> that the modelled methods touch. A callback is a
  \<open>std::function\<close> that may be empty: \<open>m_gameStateCallback\<close> and \<open>m_gameEventCallback\<close> say
  whether one is set, and \<open>stateCallback_calls\<close> and \<open>eventCallback_calls\<close> record the arguments of
  each invocation, oldest first.
\<close>

record GameDataInterface =
  m_currentGameState :: GameState
  m_recentEvents :: "GameEvent list"
  m_injectedProcesses :: "InjectedProcess list"
  m_gameStateCallback :: bool
  m_gameEventCallback :: bool
  stateCallback_calls :: "GameState list"
  eventCallback_calls :: "GameEvent list"

definition zero_PlayerState :: PlayerState where
  "zero_PlayerState =
     \<lparr>positionX = 0, positionY = 0, damage = 0, stocks = 0, character = 0, actionState = 0,
      isInHitstun = False, isInShieldstun = False, isOffstage = False\<rparr>"

text \<open>The constructor: \<open>memset\<close> of the game state to zero, empty containers, no callbacks.\<close>

definition GameDataInterface_init :: GameDataInterface where
  "GameDataInterface_init =
     \<lparr>m_currentGameState =
        \<lparr>players = replicate 4 zero_PlayerState, activePlayerCount = 0, frameCount = 0,
         stage = 0, isInGame = False, isPaused = False, gameTimer = 0\<rparr>,
      m_recentEvents = [], m_injectedProcesses = [],
      m_gameStateCallback = False, m_gameEventCallback = False,
      stateCallback_calls = [], eventCallback_calls = []\<rparr>"

definition NotifyGameStateUpdate :: "GameDataInterface \<Rightarrow> GameDataInterface" where
  "NotifyGameStateUpdate st =
     (if m_gameStateCallback st
      then st\<lparr>stateCallback_calls := stateCallback_calls st @ [m_currentGameState st]\<rparr>
      else st)"

definition NotifyGameEvent :: "GameEvent \<Rightarrow> GameDataInterface \<Rightarrow> GameDataInterface" where
  "NotifyGameEvent event st =
     (if m_gameEventCallback st
      then st\<lparr>eventCallback_calls := eventCallback_calls st @ [event]\<rparr>
      else st)"

definition tag_combo :: string where
  "tag_combo = dq # ''combo'' @ [dq]"

definition tag_kill :: string where
  "tag_kill = dq # ''kill'' @ [dq]"

definition tag_stock :: string where
  "tag_stock = dq # ''stock'' @ [dq]"

text \<open>\<open>GameEvent event = {}\<close>: every member zero, so the type is the enumerator of value 0.\<close>

definition value_init_GameEvent :: GameEvent where
  "value_init_GameEvent = \<lparr>ev_type = GAME_START, playerId = 0, timestamp = 0, data = []\<rparr>"

text \<open>
  The event that \<open>ParseGameEvent\<close> builds from a frame; \<open>tick\<close> is what \<open>GetTickCount()\<close>
  returns during the call, and the time stamp is \<open>GetTickCount() / 1000.0f\<close>, the tick count
  converted to \<open>float\<close> and divided in \<open>float\<close>.
\<close>

definition make_event :: "DWORD \<Rightarrow> string \<Rightarrow> GameEvent" where
  "make_event tick frame =
     (let event = value_init_GameEvent;
          event = (if contains frame tag_combo then event\<lparr>ev_type := COMBO_START\<rparr>
                   else if contains frame tag_kill then event\<lparr>ev_type := KILL\<rparr>
                   else if contains frame tag_stock then event\<lparr>ev_type := STOCK_LOST\<rparr>
                   else event)
      in event\<lparr>timestamp := round_float (round_float (of_nat (unat tick)) / 1000),
               data := frame\<rparr>)"

text \<open>\<open>push_back\<close>, then \<open>erase(begin())\<close> once the size is above 100.\<close>

definition push_recent :: "GameEvent \<Rightarrow> GameEvent list \<Rightarrow> GameEvent list" where
  "push_recent event evs =
     (let evs = evs @ [event] in if length evs > 100 then tl evs else evs)"

definition ParseGameEvent :: "DWORD \<Rightarrow> string \<Rightarrow> GameDataInterface \<Rightarrow> GameDataInterface" where
  "ParseGameEvent tick frame st =
     (let event = make_event tick frame;
          st = st\<lparr>m_recentEvents := push_recent event (m_recentEvents st)\<rparr>
      in NotifyGameEvent event st)"

text \<open>A sequence of event deliveries, each with the tick count read during it.\<close>

fun deliver_events :: "(DWORD \<times> string) list \<Rightarrow> GameDataInterface \<Rightarrow> GameDataInterface" where
  "deliver_events [] st = st"
| "deliver_events ((tick, frame) # rest) st = deliver_events rest (ParseGameEvent tick frame st)"

subsection \<open>State-update frames\<close>

text \<open>
  \<open>std::stoi\<close> (base 10): leading white space is skipped, an optional sign is read, then the
  longest run of decimal digits. It throws \<open>std::invalid_argument\<close> when there is no digit to
  convert and \<open>std::out_of_range\<close> when the value does not fit a 32-bit \<open>int\<close>; whatever
  follows the digits is ignored.
\<close>

datatype exception = invalid_argument | out_of_range

definition isspace :: "char \<Rightarrow> bool" where
  "isspace c = (c \<in> set [CHR 0x20, CHR 0x09, CHR 0x0A, CHR 0x0B, CHR 0x0C, CHR 0x0D])"

definition isdigit :: "char \<Rightarrow> bool" where
  "isdigit c = (48 \<le> (of_char c :: nat) \<and> (of_char c :: nat) \<le> 57)"

definition digit_value :: "char \<Rightarrow> nat" where
  "digit_value c = of_char c - 48"

definition digits_value :: "string \<Rightarrow> nat" where
  "digits_value ds = foldl (\<lambda>acc c. acc * 10 + digit_value c) 0 ds"

definition stoi :: "string \<Rightarrow> exception + int" where
  "stoi str =
     (let s = dropWhile isspace str;
          negative = (case s of [] \<Rightarrow> False | c # _ \<Rightarrow> c = CHR ''-'');
          s = (case s of [] \<Rightarrow> [] | c # cs \<Rightarrow> if c = CHR ''-'' \<or> c = CHR ''+'' then cs else c # cs);
          ds = takeWhile isdigit s
      in if ds = [] then Inl invalid_argument
         else let v = (if negative then - int (digits_value ds) else int (digits_value ds))
              in if v < - (2 ^ 31) \<or> 2 ^ 31 - 1 < v then Inl out_of_range else Inr v)"

definition tag_frame :: string where
  "tag_frame = dq # ''frame'' @ [dq] @ '':''"

definition tag_type_gameState :: string where
  "tag_type_gameState = dq # ''type'' @ [dq] @ '':'' @ dq # ''gameState'' @ [dq]"

definition tag_type_event :: string where
  "tag_type_event = dq # ''type'' @ [dq] @ '':'' @ dq # ''event'' @ [dq]"

text \<open>
  \<open>ParseGameStateUpdate\<close>. An exception of \<open>std::stoi\<close> is not caught here, nor in
  \<open>ProcessIncomingData\<close>, nor in the reader thread that calls it: the result \<open>Inl e\<close> is the
  exception leaving the thread function.
\<close>

definition ParseGameStateUpdate :: "string \<Rightarrow> GameDataInterface \<Rightarrow> exception + GameDataInterface"
  where
  "ParseGameStateUpdate frame st =
     (case str_find frame tag_frame of
        None \<Rightarrow> Inr (NotifyGameStateUpdate st)
      | Some pos \<Rightarrow>
          (let framePos = pos + 8 in
           case find_first_of frame '',}'' framePos of
             None \<Rightarrow> Inr (NotifyGameStateUpdate st)
           | Some endPos \<Rightarrow>
               (case stoi (substr frame framePos (endPos - framePos)) of
                  Inl e \<Rightarrow> Inl e
                | Inr n \<Rightarrow>
                    Inr (NotifyGameStateUpdate
                      (st\<lparr>m_currentGameState := (m_currentGameState st)\<lparr>frameCount := n\<rparr>\<rparr>)))))"

definition ProcessIncomingData ::
  "DWORD \<Rightarrow> string \<Rightarrow> GameDataInterface \<Rightarrow> exception + GameDataInterface" where
  "ProcessIncomingData tick frame st =
     (if contains frame tag_type_gameState then ParseGameStateUpdate frame st
      else if contains frame tag_type_event then Inr (ParseGameEvent tick frame st)
      else Inr st)"

definition frame_state_120 :: string where
  "frame_state_120 = ''{'' @ tag_type_gameState @ '','' @ tag_frame @ ''120}''"

definition frame_state_null :: string where
  "frame_state_null = ''{'' @ tag_type_gameState @ '','' @ tag_frame @ ''null}''"

definition frame_event_tech :: string where
  "frame_event_tech =
     ''{'' @ tag_type_event @ '','' @ dq # ''name'' @ [dq] @ '':'' @ dq # ''tech'' @ [dq] @ ''}''"

text \<open>
  An event frame that quotes a state frame,
  \<open>{"type":"event","after":{"type":"gameState"}}\<close>, and an interface on which an event
  callback has been set.
\<close>

definition frame_event_after_state :: string where
  "frame_event_after_state =
     ''{'' @ tag_type_event @ '','' @ dq # ''after'' @ [dq] @ '':{'' @ tag_type_gameState @ ''}}''"

definition interface_listening :: GameDataInterface where
  "interface_listening = GameDataInterface_init\<lparr>m_gameEventCallback := True\<rparr>"

section \<open>Remote module loader\<close>

text \<open>
  The platform's process interface. The responses of the system calls are functions of their
  arguments (\<open>0\<close> for a \<open>NULL\<close> result), and \<open>kernel_calls\<close> logs every call that acts on
  another process or on a handle, oldest first. A process that is gone cannot be opened:
  \<open>open_process\<close> answers \<open>0\<close> for its id.
\<close>

datatype kernel_call =
    K_OpenProcess DWORD
  | K_VirtualAllocEx HANDLE nat
  | K_WriteProcessMemory HANDLE LPVOID string
  | K_CreateRemoteThread HANDLE LPVOID LPVOID
  | K_WaitForSingleObject HANDLE
  | K_VirtualFreeEx HANDLE LPVOID
  | K_CloseHandle HANDLE

record Kernel =
  open_process :: "DWORD \<Rightarrow> HANDLE"
  virtual_alloc :: "HANDLE \<Rightarrow> nat \<Rightarrow> LPVOID"
  write_memory :: "HANDLE \<Rightarrow> LPVOID \<Rightarrow> string \<Rightarrow> bool"
  module_handle :: "string \<Rightarrow> HMODULE"
  proc_address :: "HMODULE \<Rightarrow> string \<Rightarrow> LPVOID"
  create_thread :: "HANDLE \<Rightarrow> LPVOID \<Rightarrow> LPVOID \<Rightarrow> HANDLE"
  thread_exit_code :: "HANDLE \<Rightarrow> DWORD"
  module_file_name :: string
  file_exists :: "string \<Rightarrow> bool"
  kernel_calls :: "kernel_call list"

definition kcall :: "kernel_call \<Rightarrow> Kernel \<Rightarrow> Kernel" where
  "kcall c k = k\<lparr>kernel_calls := kernel_calls k @ [c]\<rparr>"

fun erase_first :: "('a \<Rightarrow> bool) \<Rightarrow> 'a list \<Rightarrow> 'a list" where
  "erase_first P [] = []"
| "erase_first P (x # xs) = (if P x then xs else x # erase_first P xs)"

definition find_last_of :: "string \<Rightarrow> string \<Rightarrow> nat option" where
  "find_last_of s chars =
     map_option (\<lambda>i. length s - 1 - i) (first_index (\<lambda>c. c \<in> set chars) (rev s))"

definition backslash :: char where
  "backslash = CHR 0x5C"

subsection \<open>GameDataInterface\<close>

definition GetDLLPath :: "Kernel \<Rightarrow> string" where
  "GetDLLPath k =
     (let path = module_file_name k;
          path = (case find_last_of path [backslash] of
                    Some lastSlash \<Rightarrow> substr path 0 (lastSlash + 1)
                  | None \<Rightarrow> path);
          path = path @ ''overlay.dll''
      in if file_exists k path then path
         else let path = ''build'' @ [backslash] @ ''overlay.dll''
              in if file_exists k path then path else [])"

definition IsDLLInjected :: "GameDataInterface \<Rightarrow> DWORD \<Rightarrow> bool" where
  "IsDLLInjected st pid = list_ex (\<lambda>process. processId process = pid) (m_injectedProcesses st)"

definition InjectDLLIntoProcess ::
  "Kernel \<Rightarrow> GameDataInterface \<Rightarrow> DWORD \<Rightarrow> string \<Rightarrow> bool \<times> Kernel \<times> GameDataInterface" where
  "InjectDLLIntoProcess k st pid dllPath =
     (let hProcess = open_process k pid;
          k = kcall (K_OpenProcess pid) k
      in if hProcess = 0 then (False, k, st)
      else
      let pathSize = (length dllPath + 1) * 2;
          remoteMemory = virtual_alloc k hProcess pathSize;
          k = kcall (K_VirtualAllocEx hProcess pathSize) k
      in if remoteMemory = 0 then (False, kcall (K_CloseHandle hProcess) k, st)
      else
      let written = write_memory k hProcess remoteMemory dllPath;
          k = kcall (K_WriteProcessMemory hProcess remoteMemory dllPath) k
      in if \<not> written
         then (False, kcall (K_CloseHandle hProcess) (kcall (K_VirtualFreeEx hProcess remoteMemory) k), st)
      else
      let kernel32 = module_handle k ''kernel32.dll'';
          loadLibraryAddr = proc_address k kernel32 ''LoadLibraryW''
      in if loadLibraryAddr = 0
         then (False, kcall (K_CloseHandle hProcess) (kcall (K_VirtualFreeEx hProcess remoteMemory) k), st)
      else
      let remoteThread = create_thread k hProcess loadLibraryAddr remoteMemory;
          k = kcall (K_CreateRemoteThread hProcess loadLibraryAddr remoteMemory) k
      in if remoteThread = 0
         then (False, kcall (K_CloseHandle hProcess) (kcall (K_VirtualFreeEx hProcess remoteMemory) k), st)
      else
      let k = kcall (K_WaitForSingleObject remoteThread) k;
          exitCode = thread_exit_code k remoteThread;
          module = unat exitCode;
          k = kcall (K_CloseHandle remoteThread) k;
          k = kcall (K_VirtualFreeEx hProcess remoteMemory) k
      in if module = 0 then (False, kcall (K_CloseHandle hProcess) k, st)
      else (True, k,
            st\<lparr>m_injectedProcesses := m_injectedProcesses st @
                 [\<lparr>processId = pid, processHandle = hProcess, dllModule = module\<rparr>]\<rparr>))"

definition InjectDLL ::
  "Kernel \<Rightarrow> GameDataInterface \<Rightarrow> DWORD \<Rightarrow> bool \<times> Kernel \<times> GameDataInterface" where
  "InjectDLL k st pid =
     (if IsDLLInjected st pid then (True, k, st)
      else let dllPath = GetDLLPath k
           in if dllPath = [] then (False, k, st) else InjectDLLIntoProcess k st pid dllPath)"

definition EjectDLLFromProcess ::
  "Kernel \<Rightarrow> GameDataInterface \<Rightarrow> DWORD \<Rightarrow> bool \<times> Kernel \<times> GameDataInterface" where
  "EjectDLLFromProcess k st pid =
     (case find (\<lambda>process. processId process = pid) (m_injectedProcesses st) of
        None \<Rightarrow> (False, k, st)
      | Some it \<Rightarrow>
          (let kernel32 = module_handle k ''kernel32.dll'';
               freeLibraryAddr = proc_address k kernel32 ''FreeLibrary'';
               k = (if freeLibraryAddr \<noteq> 0
                    then let remoteThread =
                               create_thread k (processHandle it) freeLibraryAddr (dllModule it);
                             k = kcall (K_CreateRemoteThread (processHandle it) freeLibraryAddr
                                          (dllModule it)) k
                         in if remoteThread \<noteq> 0
                            then kcall (K_CloseHandle remoteThread)
                                   (kcall (K_WaitForSingleObject remoteThread) k)
                            else k
                    else k);
               k = kcall (K_CloseHandle (processHandle it)) k
           in (True, k,
               st\<lparr>m_injectedProcesses :=
                    erase_first (\<lambda>process. processId process = pid) (m_injectedProcesses st)\<rparr>)))"

definition EjectDLL ::
  "Kernel \<Rightarrow> GameDataInterface \<Rightarrow> DWORD \<Rightarrow> bool \<times> Kernel \<times> GameDataInterface" where
  "EjectDLL k st pid = EjectDLLFromProcess k st pid"

subsection \<open>DllInjector (dll\_injector.cpp)\<close>

text \<open>The static injector of the native add-on; it keeps no record of what it injected.\<close>

definition DllInjector_InjectDll :: "Kernel \<Rightarrow> DWORD \<Rightarrow> string \<Rightarrow> bool \<times> Kernel" where
  "DllInjector_InjectDll k pid dllPath =
     (let hProcess = open_process k pid;
          k = kcall (K_OpenProcess pid) k
      in if hProcess = 0 then (False, k)
      else
      let dllPathSize = length dllPath + 1;
          pRemoteMemory = virtual_alloc k hProcess dllPathSize;
          k = kcall (K_VirtualAllocEx hProcess dllPathSize) k
      in if pRemoteMemory = 0 then (False, kcall (K_CloseHandle hProcess) k)
      else
      let written = write_memory k hProcess pRemoteMemory dllPath;
          k = kcall (K_WriteProcessMemory hProcess pRemoteMemory dllPath) k
      in if \<not> written
         then (False, kcall (K_CloseHandle hProcess) (kcall (K_VirtualFreeEx hProcess pRemoteMemory) k))
      else
      let hKernel32 = module_handle k ''kernel32.dll''
      in if hKernel32 = 0
         then (False, kcall (K_CloseHandle hProcess) (kcall (K_VirtualFreeEx hProcess pRemoteMemory) k))
      else
      let pLoadLibraryA = proc_address k hKernel32 ''LoadLibraryA''
      in if pLoadLibraryA = 0
         then (False, kcall (K_CloseHandle hProcess) (kcall (K_VirtualFreeEx hProcess pRemoteMemory) k))
      else
      let hThread = create_thread k hProcess pLoadLibraryA pRemoteMemory;
          k = kcall (K_CreateRemoteThread hProcess pLoadLibraryA pRemoteMemory) k
      in if hThread = 0
         then (False, kcall (K_CloseHandle hProcess) (kcall (K_VirtualFreeEx hProcess pRemoteMemory) k))
      else
      let k = kcall (K_WaitForSingleObject hThread) k;
          k = kcall (K_CloseHandle hThread) k;
          k = kcall (K_VirtualFreeEx hProcess pRemoteMemory) k;
          k = kcall (K_CloseHandle hProcess) k
      in (True, k))"

text \<open>
  A platform on which every step up to the remote thread succeeds for process 4242 and the
  loader call inside the target returns \<open>NULL\<close> (the thread's exit code is 0).
\<close>

definition kernel_load_fails :: Kernel where
  "kernel_load_fails =
     \<lparr>open_process = (\<lambda>pid. if pid = 4242 then 100 else 0),
      virtual_alloc = (\<lambda>h n. 4096),
      write_memory = (\<lambda>h a s. True),
      module_handle = (\<lambda>name. 7),
      proc_address = (\<lambda>m name. 9),
      create_thread = (\<lambda>h f a. 200),
      thread_exit_code = (\<lambda>h. 0),
      module_file_name = ''C:'' @ [backslash] @ ''app'' @ [backslash] @ ''coach.exe'',
      file_exists = (\<lambda>path. True),
      kernel_calls = []\<rparr>"

definition dll_path :: string where
  "dll_path = ''C:'' @ [backslash] @ ''app'' @ [backslash] @ ''overlay.dll''"

section \<open>Communication channel: sending\<close>

text \<open>
  The transport behind a pipe handle: \<open>ch_broken\<close> says that the other end is gone and
  \<open>ch_accepted\<close> holds the bytes the transport has taken so far. Every pipe handle of the
  program is a blocking one (\<open>PIPE_WAIT\<close>, no overlapped I/O): \<open>WriteFile\<close> fails on a handle
  that is no pipe and on a broken pipe, writing nothing, and otherwise it returns once all the
  \<open>nBytes\<close> bytes it was asked for are written, reporting that number in \<open>bytesWritten\<close>.
\<close>

record Channel =
  ch_broken :: bool
  ch_accepted :: string

type_synonym Pipes = "HANDLE \<Rightarrow> Channel option"

definition INVALID_HANDLE_VALUE :: HANDLE where
  "INVALID_HANDLE_VALUE = 2 ^ 64 - 1"

definition WriteFile :: "Pipes \<Rightarrow> HANDLE \<Rightarrow> string \<Rightarrow> DWORD \<Rightarrow> bool \<times> DWORD \<times> Pipes" where
  "WriteFile pipes h buffer nBytes =
     (case pipes h of
        None \<Rightarrow> (False, 0, pipes)
      | Some ch \<Rightarrow>
          if ch_broken ch then (False, 0, pipes)
          else (True, nBytes,
                pipes(h \<mapsto> ch\<lparr>ch_accepted := ch_accepted ch @ take (unat nBytes) buffer\<rparr>)))"

text \<open>
  \<open>NamedPipeClient::SendMessage\<close> (communication.cpp); the state is the member \<open>pipeHandle\<close>.
  The length is passed as \<open>static_cast<DWORD>(message.length())\<close>.
\<close>

definition NamedPipeClient_SendMessage :: "Pipes \<Rightarrow> HANDLE \<Rightarrow> string \<Rightarrow> bool \<times> Pipes" where
  "NamedPipeClient_SendMessage pipes pipeHandle message =
     (if pipeHandle = INVALID_HANDLE_VALUE then (False, pipes)
      else let (ok, bytesWritten, pipes) =
                 WriteFile pipes pipeHandle message (word_of_nat (length message))
           in (ok, pipes))"

text \<open>
  \<open>Communication::SendMessage\<close> (overlay\_native.cpp); the state is the member \<open>m_pipe\<close>. The
  length is converted to the \<open>DWORD\<close> parameter implicitly, and \<open>bytesWritten\<close> is compared
  with the length as a \<open>size_t\<close>.
\<close>

definition Communication_SendMessage :: "Pipes \<Rightarrow> HANDLE \<Rightarrow> string \<Rightarrow> bool \<times> Pipes" where
  "Communication_SendMessage pipes m_pipe message =
     (if m_pipe = INVALID_HANDLE_VALUE then (False, pipes)
      else let (ok, bytesWritten, pipes) =
                 WriteFile pipes m_pipe message (word_of_nat (length message))
           in (ok \<and> unat bytesWritten = length message, pipes))"

text \<open>
  A connected pipe behind handle 7, and a message of \<open>2^32 + 5\<close> bytes, whose length does not
  fit a \<open>DWORD\<close> (\<open>size_t\<close> has 64 bits in a 64-bit build).
\<close>

definition pipes_connected :: Pipes where
  "pipes_connected = Map.empty(7 \<mapsto> \<lparr>ch_broken = False, ch_accepted = []\<rparr>)"

definition message_4GiB :: string where
  "message_4GiB = ''hello'' @ replicate (2 ^ 32) (CHR ''x'')"

section \<open>Overlay messages (overlay\_simple.cpp)\<close>

datatype MessagePosition =
  AUTO | TOP_LEFT | TOP_CENTER | TOP_RIGHT | MIDDLE_LEFT | MIDDLE_CENTER | MIDDLE_RIGHT
  | BOTTOM_LEFT | BOTTOM_CENTER | BOTTOM_RIGHT

datatype MessageCategory =
  GENERAL | TECHNICAL | POSITIONING | COMBO | DEFENSIVE | OFFENSIVE | NEUTRAL

datatype MessagePriority = LOW | NORMAL | HIGH | CRITICAL







text \<open>
  The fade as the specification words it, for an elapsed time \<open>e\<close> and a duration \<open>D\<close>: 1 up
  to \<open>0.8 D\<close>, then linear in \<open>e\<close>, reaching 0 at \<open>e = D\<close>.
\<close>

definition linear_fade :: "nat \<Rightarrow> nat \<Rightarrow> rat" where
  "linear_fade e D = (if 5 * e \<le> 4 * D then 1 else 5 * (of_nat D - of_nat e) / of_nat D)"



section \<open>Window embedding manager\<close>

subsection \<open>The platform's windows\<close>

record RECT =
  rc_left :: LONG
  rc_top :: LONG
  rc_right :: LONG
  rc_bottom :: LONG

text \<open>
  What the platform keeps for a window, as far as the manager reads or writes it: the parent,
  the two style words, the bounding rectangle and the client rectangle. Rectangles are in one
  coordinate system, as they are for the top-level windows that the manager looks for.
\<close>

record WINDOW =
  w_parent :: HWND
  w_style :: LONG
  w_exStyle :: LONG
  w_rect :: RECT
  w_clientRect :: RECT

datatype LongIndex = GWL_STYLE | GWL_EXSTYLE

text \<open>
  The calls into the window system that the platform may deny, with their arguments. All but
  \<open>C_GetClientRect\<close>, which only reads, are meant to change something.
\<close>

datatype call =
    C_SetParent HWND HWND
  | C_SetWindowLong HWND LongIndex LONG
  | C_SetWindowPos HWND HWND LONG LONG LONG LONG DWORD
  | C_ShowWindow HWND nat
  | C_InvalidateRect HWND bool
  | C_UpdateWindow HWND
  | C_GetClientRect HWND

text \<open>
  The window system: \<open>windows\<close> maps the handle of every live window to its data, \<open>rejects\<close>
  says which calls the platform denies (for whatever reason of its own), \<open>lastError\<close> is the
  calling thread's last-error value, and \<open>calls\<close> logs the state-changing calls made, oldest
  first, whether they succeed or not. A call on a handle that is no live window fails and
  changes no window; a denied call fails and changes no window; any other call takes effect
  on the window it names and on nothing else.
\<close>

record Desktop =
  windows :: "HWND \<Rightarrow> WINDOW option"
  rejects :: "call \<Rightarrow> bool"
  lastError :: DWORD
  calls :: "call list"

text \<open>
  The constants below are macros of the platform headers, which are not part of the
  repository; they carry the values of the Windows SDK. What the proofs use of them is that
  the \<open>SWP\<close> flags are distinct bits, that \<open>WS_MINIMIZE\<close> and \<open>WS_MAXIMIZE\<close> are two
  distinct single bits, and that the error codes are not zero.
\<close>

definition SW_SHOWNORMAL :: nat where
  "SW_SHOWNORMAL = 1"

definition SW_SHOWMINIMIZED :: nat where
  "SW_SHOWMINIMIZED = 2"

definition SW_SHOWMAXIMIZED :: nat where
  "SW_SHOWMAXIMIZED = 3"

definition HWND_BOTTOM :: HWND where
  "HWND_BOTTOM = 1"

definition SWP_NOSIZE :: DWORD where "SWP_NOSIZE = 0x0001"
definition SWP_NOMOVE :: DWORD where "SWP_NOMOVE = 0x0002"
definition SWP_NOZORDER :: DWORD where "SWP_NOZORDER = 0x0004"
definition SWP_NOACTIVATE :: DWORD where "SWP_NOACTIVATE = 0x0010"
definition SWP_FRAMECHANGED :: DWORD where "SWP_FRAMECHANGED = 0x0020"
definition SWP_SHOWWINDOW :: DWORD where "SWP_SHOWWINDOW = 0x0040"
definition SWP_NOOWNERZORDER :: DWORD where "SWP_NOOWNERZORDER = 0x0200"

definition WS_CAPTION :: LONG where "WS_CAPTION = 0x00C00000"
definition WS_THICKFRAME :: LONG where "WS_THICKFRAME = 0x00040000"
definition WS_MINIMIZEBOX :: LONG where "WS_MINIMIZEBOX = 0x00020000"
definition WS_MAXIMIZEBOX :: LONG where "WS_MAXIMIZEBOX = 0x00010000"
definition WS_SYSMENU :: LONG where "WS_SYSMENU = 0x00080000"
definition WS_BORDER :: LONG where "WS_BORDER = 0x00800000"
definition WS_CHILD :: LONG where "WS_CHILD = 0x40000000"
definition WS_CLIPSIBLINGS :: LONG where "WS_CLIPSIBLINGS = 0x04000000"
definition WS_MINIMIZE :: LONG where "WS_MINIMIZE = 0x20000000"
definition WS_MAXIMIZE :: LONG where "WS_MAXIMIZE = 0x01000000"

definition WS_EX_DLGMODALFRAME :: LONG where "WS_EX_DLGMODALFRAME = 0x00000001"
definition WS_EX_WINDOWEDGE :: LONG where "WS_EX_WINDOWEDGE = 0x00000100"
definition WS_EX_CLIENTEDGE :: LONG where "WS_EX_CLIENTEDGE = 0x00000200"
definition WS_EX_STATICEDGE :: LONG where "WS_EX_STATICEDGE = 0x00020000"
definition WS_EX_OVERLAPPEDWINDOW :: LONG where "WS_EX_OVERLAPPEDWINDOW = 0x00000300"
definition WS_EX_PALETTEWINDOW :: LONG where "WS_EX_PALETTEWINDOW = 0x00000188"

definition ERROR_ACCESS_DENIED :: DWORD where "ERROR_ACCESS_DENIED = 5"
definition ERROR_INVALID_WINDOW_HANDLE :: DWORD where "ERROR_INVALID_WINDOW_HANDLE = 1400"

definition zero_RECT :: RECT where
  "zero_RECT = \<lparr>rc_left = 0, rc_top = 0, rc_right = 0, rc_bottom = 0\<rparr>"

definition IsWindow :: "Desktop \<Rightarrow> HWND \<Rightarrow> bool" where
  "IsWindow d hwnd = (hwnd \<noteq> 0 \<and> windows d hwnd \<noteq> None)"

definition GetParent :: "Desktop \<Rightarrow> HWND \<Rightarrow> HWND" where
  "GetParent d hwnd =
     (if IsWindow d hwnd then (case windows d hwnd of Some w \<Rightarrow> w_parent w | None \<Rightarrow> 0) else 0)"

definition GetWindowLong :: "Desktop \<Rightarrow> HWND \<Rightarrow> LongIndex \<Rightarrow> LONG" where
  "GetWindowLong d hwnd idx =
     (if IsWindow d hwnd
      then (case windows d hwnd of
              Some w \<Rightarrow> (case idx of GWL_STYLE \<Rightarrow> w_style w | GWL_EXSTYLE \<Rightarrow> w_exStyle w)
            | None \<Rightarrow> 0)
      else 0)"

definition GetWindowRect :: "Desktop \<Rightarrow> HWND \<Rightarrow> RECT option" where
  "GetWindowRect d hwnd =
     (if IsWindow d hwnd then map_option w_rect (windows d hwnd) else None)"

definition GetClientRect :: "Desktop \<Rightarrow> HWND \<Rightarrow> RECT option" where
  "GetClientRect d hwnd =
     (if IsWindow d hwnd \<and> \<not> rejects d (C_GetClientRect hwnd)
      then map_option w_clientRect (windows d hwnd) else None)"

text \<open>
  The show state of a window is kept by the platform in the style bits \<open>WS_MINIMIZE\<close> and
  \<open>WS_MAXIMIZE\<close>; this is the \<open>showCmd\<close> that \<open>GetWindowPlacement\<close> reports.
\<close>

definition showCmd_of :: "WINDOW \<Rightarrow> nat" where
  "showCmd_of w =
     (if w_style w AND WS_MINIMIZE \<noteq> 0 then SW_SHOWMINIMIZED
      else if w_style w AND WS_MAXIMIZE \<noteq> 0 then SW_SHOWMAXIMIZED
      else SW_SHOWNORMAL)"

text \<open>\<open>GetWindowPlacement\<close>, reduced to the \<open>showCmd\<close> member; 0 is what a zeroed struct holds.\<close>

definition GetWindowPlacement_showCmd :: "Desktop \<Rightarrow> HWND \<Rightarrow> nat" where
  "GetWindowPlacement_showCmd d hwnd =
     (if IsWindow d hwnd then (case windows d hwnd of Some w \<Rightarrow> showCmd_of w | None \<Rightarrow> 0)
      else 0)"

definition SetLastError :: "DWORD \<Rightarrow> Desktop \<Rightarrow> Desktop" where
  "SetLastError e d = d\<lparr>lastError := e\<rparr>"

definition GetLastError :: "Desktop \<Rightarrow> DWORD" where
  "GetLastError d = lastError d"

text \<open>
  A state-changing call: it is logged; on a dead handle or when denied it fails, setting the
  last-error value; otherwise the update \<open>f\<close> is applied to the window.
\<close>

definition perform :: "call \<Rightarrow> HWND \<Rightarrow> (WINDOW \<Rightarrow> WINDOW) \<Rightarrow> Desktop \<Rightarrow> bool \<times> Desktop" where
  "perform c hwnd f d =
     (let d = d\<lparr>calls := calls d @ [c]\<rparr>
      in if \<not> IsWindow d hwnd then (False, d\<lparr>lastError := ERROR_INVALID_WINDOW_HANDLE\<rparr>)
         else if rejects d c then (False, d\<lparr>lastError := ERROR_ACCESS_DENIED\<rparr>)
         else (case windows d hwnd of
                 Some w \<Rightarrow> (True, d\<lparr>windows := (windows d)(hwnd \<mapsto> f w)\<rparr>)
               | None \<Rightarrow> (False, d)))"

text \<open>\<open>SetParent\<close> returns the previous parent, \<open>NULL\<close> on failure.\<close>

definition SetParent :: "Desktop \<Rightarrow> HWND \<Rightarrow> HWND \<Rightarrow> HWND \<times> Desktop" where
  "SetParent d hwnd newParent =
     (let old = GetParent d hwnd;
          (ok, d) = perform (C_SetParent hwnd newParent) hwnd (\<lambda>w. w\<lparr>w_parent := newParent\<rparr>) d
      in (if ok then old else 0, d))"

definition SetWindowLong :: "Desktop \<Rightarrow> HWND \<Rightarrow> LongIndex \<Rightarrow> LONG \<Rightarrow> Desktop" where
  "SetWindowLong d hwnd idx v =
     snd (perform (C_SetWindowLong hwnd idx v) hwnd
            (\<lambda>w. case idx of GWL_STYLE \<Rightarrow> w\<lparr>w_style := v\<rparr> | GWL_EXSTYLE \<Rightarrow> w\<lparr>w_exStyle := v\<rparr>) d)"

text \<open>
  \<open>SetWindowPos\<close>: the position is kept under \<open>SWP_NOMOVE\<close> and the size under \<open>SWP_NOSIZE\<close>;
  the Z order and the other flags have no counterpart in the modelled window data.
\<close>

definition move_rect :: "LONG \<Rightarrow> LONG \<Rightarrow> LONG \<Rightarrow> LONG \<Rightarrow> DWORD \<Rightarrow> RECT \<Rightarrow> RECT" where
  "move_rect x y cx cy flags r =
     (let l = (if flags AND SWP_NOMOVE \<noteq> 0 then rc_left r else x);
          t = (if flags AND SWP_NOMOVE \<noteq> 0 then rc_top r else y);
          w = (if flags AND SWP_NOSIZE \<noteq> 0 then rc_right r - rc_left r else cx);
          h = (if flags AND SWP_NOSIZE \<noteq> 0 then rc_bottom r - rc_top r else cy)
      in \<lparr>rc_left = l, rc_top = t, rc_right = l + w, rc_bottom = t + h\<rparr>)"

definition SetWindowPos ::
  "Desktop \<Rightarrow> HWND \<Rightarrow> HWND \<Rightarrow> LONG \<Rightarrow> LONG \<Rightarrow> LONG \<Rightarrow> LONG \<Rightarrow> DWORD \<Rightarrow> bool \<times> Desktop" where
  "SetWindowPos d hwnd insertAfter x y cx cy flags =
     perform (C_SetWindowPos hwnd insertAfter x y cx cy flags) hwnd
       (\<lambda>w. w\<lparr>w_rect := move_rect x y cx cy flags (w_rect w)\<rparr>) d"

text \<open>
  \<open>ShowWindow\<close>: the manager only ever asks for \<open>SW_SHOWMAXIMIZED\<close>, which marks the window
  as maximized and no longer minimized. The geometry that the platform gives a maximized
  window, and the other show commands, are not modelled.
\<close>

definition ShowWindow :: "Desktop \<Rightarrow> HWND \<Rightarrow> nat \<Rightarrow> Desktop" where
  "ShowWindow d hwnd cmd =
     snd (perform (C_ShowWindow hwnd cmd) hwnd
            (\<lambda>w. if cmd = SW_SHOWMAXIMIZED
                 then w\<lparr>w_style := (w_style w OR WS_MAXIMIZE) AND NOT WS_MINIMIZE\<rparr>
                 else w) d)"

definition InvalidateRect :: "Desktop \<Rightarrow> HWND \<Rightarrow> bool \<Rightarrow> Desktop" where
  "InvalidateRect d hwnd erase = snd (perform (C_InvalidateRect hwnd erase) hwnd (\<lambda>w. w) d)"

definition UpdateWindow :: "Desktop \<Rightarrow> HWND \<Rightarrow> Desktop" where
  "UpdateWindow d hwnd = snd (perform (C_UpdateWindow hwnd) hwnd (\<lambda>w. w) d)"

subsection \<open>WindowManager\<close>

record EmbeddedWindowInfo =
  gameWindow :: HWND
  originalParent :: HWND
  originalStyle :: LONG
  originalExStyle :: LONG
  originalRect :: RECT
  wasMaximized :: bool

record WindowManager =
  m_embeddedWindows :: "EmbeddedWindowInfo list"

definition zero_EmbeddedWindowInfo :: EmbeddedWindowInfo where
  "zero_EmbeddedWindowInfo =
     \<lparr>gameWindow = 0, originalParent = 0, originalStyle = 0, originalExStyle = 0,
      originalRect = zero_RECT, wasMaximized = False\<rparr>"

definition SaveWindowState :: "Desktop \<Rightarrow> HWND \<Rightarrow> EmbeddedWindowInfo \<Rightarrow> EmbeddedWindowInfo" where
  "SaveWindowState d window info =
     info\<lparr>originalParent := GetParent d window,
          originalStyle := GetWindowLong d window GWL_STYLE,
          originalExStyle := GetWindowLong d window GWL_EXSTYLE,
          originalRect := (case GetWindowRect d window of Some r \<Rightarrow> r | None \<Rightarrow> originalRect info),
          wasMaximized := (GetWindowPlacement_showCmd d window = SW_SHOWMAXIMIZED)\<rparr>"

definition RestoreWindowState :: "Desktop \<Rightarrow> EmbeddedWindowInfo \<Rightarrow> Desktop" where
  "RestoreWindowState d info =
     (if \<not> IsWindow d (gameWindow info) then d
      else
      let d = snd (SetParent d (gameWindow info) (originalParent info));
          d = SetWindowLong d (gameWindow info) GWL_STYLE (originalStyle info);
          d = SetWindowLong d (gameWindow info) GWL_EXSTYLE (originalExStyle info);
          d = snd (SetWindowPos d (gameWindow info) 0
                     (rc_left (originalRect info)) (rc_top (originalRect info))
                     (rc_right (originalRect info) - rc_left (originalRect info))
                     (rc_bottom (originalRect info) - rc_top (originalRect info))
                     (SWP_NOZORDER OR SWP_FRAMECHANGED))
      in if wasMaximized info then ShowWindow d (gameWindow info) SW_SHOWMAXIMIZED else d)"

definition ApplyEmbeddedStyle :: "Desktop \<Rightarrow> HWND \<Rightarrow> Desktop" where
  "ApplyEmbeddedStyle d window =
     (let style = GetWindowLong d window GWL_STYLE;
          style = style AND NOT (WS_CAPTION OR WS_THICKFRAME OR WS_MINIMIZEBOX OR WS_MAXIMIZEBOX
                                 OR WS_SYSMENU OR WS_BORDER);
          style = style OR WS_CHILD OR WS_CLIPSIBLINGS;
          d = SetWindowLong d window GWL_STYLE style;
          exStyle = GetWindowLong d window GWL_EXSTYLE;
          exStyle = exStyle AND NOT (WS_EX_DLGMODALFRAME OR WS_EX_WINDOWEDGE OR WS_EX_CLIENTEDGE
                                     OR WS_EX_STATICEDGE OR WS_EX_OVERLAPPEDWINDOW
                                     OR WS_EX_PALETTEWINDOW);
          d = SetWindowLong d window GWL_EXSTYLE exStyle
      in snd (SetWindowPos d window HWND_BOTTOM 0 0 0 0
                (SWP_NOMOVE OR SWP_NOSIZE OR SWP_FRAMECHANGED OR SWP_NOACTIVATE
                 OR SWP_NOOWNERZORDER)))"

definition EmbedGameWindow ::
  "Desktop \<Rightarrow> WindowManager \<Rightarrow> HWND \<Rightarrow> HWND \<Rightarrow> bool \<times> Desktop \<times> WindowManager" where
  "EmbedGameWindow d wm parentWindow game =
     (if \<not> IsWindow d game then (False, d, wm)
      else if \<not> IsWindow d parentWindow then (False, d, wm)
      else if list_ex (\<lambda>info. gameWindow info = game) (m_embeddedWindows wm) then (True, d, wm)
      else
      let embedInfo = SaveWindowState d game (zero_EmbeddedWindowInfo\<lparr>gameWindow := game\<rparr>);
          d = SetLastError 0 d;
          (oldParent, d) = SetParent d game parentWindow;
          lastErr = GetLastError d
      in if oldParent = 0 \<and> lastErr \<noteq> 0 then (False, d, wm)
      else
      let d = ApplyEmbeddedStyle d game;
          d = (case GetClientRect d parentWindow of
                 Some parentClientRect \<Rightarrow>
                   snd (SetWindowPos d game HWND_BOTTOM 0 0
                          (rc_right parentClientRect - rc_left parentClientRect)
                          (rc_bottom parentClientRect - rc_top parentClientRect)
                          (SWP_NOACTIVATE OR SWP_SHOWWINDOW))
               | None \<Rightarrow> d);
          wm = wm\<lparr>m_embeddedWindows := m_embeddedWindows wm @ [embedInfo]\<rparr>;
          d = InvalidateRect d parentWindow True;
          d = InvalidateRect d game True;
          d = UpdateWindow d parentWindow;
          d = UpdateWindow d game
      in (True, d, wm))"

definition RestoreGameWindow ::
  "Desktop \<Rightarrow> WindowManager \<Rightarrow> HWND \<Rightarrow> bool \<times> Desktop \<times> WindowManager" where
  "RestoreGameWindow d wm game =
     (case find (\<lambda>info. gameWindow info = game) (m_embeddedWindows wm) of
        Some info \<Rightarrow>
          (True, RestoreWindowState d info,
           wm\<lparr>m_embeddedWindows :=
                erase_first (\<lambda>info. gameWindow info = game) (m_embeddedWindows wm)\<rparr>)
      | None \<Rightarrow> (False, d, wm))"

text \<open>The destructor: every tracked window is restored, in order, and the list is cleared.\<close>

definition WindowManager_destroy :: "Desktop \<Rightarrow> WindowManager \<Rightarrow> Desktop \<times> WindowManager" where
  "WindowManager_destroy d wm =
     (foldl RestoreWindowState d (m_embeddedWindows wm), wm\<lparr>m_embeddedWindows := []\<rparr>)"

definition SynchronizeWindowRefresh :: "Desktop \<Rightarrow> HWND \<Rightarrow> HWND \<Rightarrow> Desktop" where
  "SynchronizeWindowRefresh d containerWindow game =
     (if \<not> IsWindow d containerWindow \<or> \<not> IsWindow d game then d
      else
      let d = InvalidateRect d game False;
          d = InvalidateRect d containerWindow False;
          d = UpdateWindow d game;
          d = UpdateWindow d containerWindow
      in snd (SetWindowPos d game HWND_BOTTOM 0 0 0 0
                (SWP_NOMOVE OR SWP_NOSIZE OR SWP_NOACTIVATE OR SWP_NOOWNERZORDER)))"

definition UpdateGameWindowPosition :: "Desktop \<Rightarrow> HWND \<Rightarrow> HWND \<Rightarrow> RECT \<Rightarrow> Desktop" where
  "UpdateGameWindowPosition d parentWindow game gameArea =
     (if \<not> IsWindow d game then d
      else
      let d = snd (SetWindowPos d game HWND_BOTTOM (rc_left gameArea) (rc_top gameArea)
                     (rc_right gameArea - rc_left gameArea)
                     (rc_bottom gameArea - rc_top gameArea)
                     (SWP_NOACTIVATE OR SWP_NOOWNERZORDER))
      in SynchronizeWindowRefresh d parentWindow game)"

subsection \<open>Restoration, as the specification words it\<close>

text \<open>
  The calls a restore is expected to make for a record, in order: parent, style, extended
  style, bounds, and the maximized show state when it had been captured.
\<close>

definition restore_calls :: "EmbeddedWindowInfo \<Rightarrow> call list" where
  "restore_calls info =
     [C_SetParent (gameWindow info) (originalParent info),
      C_SetWindowLong (gameWindow info) GWL_STYLE (originalStyle info),
      C_SetWindowLong (gameWindow info) GWL_EXSTYLE (originalExStyle info),
      C_SetWindowPos (gameWindow info) 0
        (rc_left (originalRect info)) (rc_top (originalRect info))
        (rc_right (originalRect info) - rc_left (originalRect info))
        (rc_bottom (originalRect info) - rc_top (originalRect info))
        (SWP_NOZORDER OR SWP_FRAMECHANGED)]
     @ (if wasMaximized info then [C_ShowWindow (gameWindow info) SW_SHOWMAXIMIZED] else [])"

text \<open>The window a call is made on (its first argument).\<close>

fun call_window :: "call \<Rightarrow> HWND" where
  "call_window (C_SetParent hwnd newParent) = hwnd"
| "call_window (C_SetWindowLong hwnd idx v) = hwnd"
| "call_window (C_SetWindowPos hwnd insertAfter x y cx cy flags) = hwnd"
| "call_window (C_ShowWindow hwnd cmd) = hwnd"
| "call_window (C_InvalidateRect hwnd erase) = hwnd"
| "call_window (C_UpdateWindow hwnd) = hwnd"
| "call_window (C_GetClientRect hwnd) = hwnd"

text \<open>
  A window \<open>w\<close> has the saved attributes of \<open>w0\<close>: parent, both style words, bounding
  rectangle, and whether it is maximized.
\<close>

definition restored_to :: "WINDOW \<Rightarrow> WINDOW \<Rightarrow> bool" where
  "restored_to w0 w =
     (w_parent w = w_parent w0 \<and> w_style w = w_style w0 \<and> w_exStyle w = w_exStyle w0 \<and>
      w_rect w = w_rect w0 \<and>
      (showCmd_of w = SW_SHOWMAXIMIZED) = (showCmd_of w0 = SW_SHOWMAXIMIZED))"

subsection \<open>Auxiliary notions for the proofs\<close>

text \<open>The steps of \<open>EmbedGameWindow\<close> on the platform after \<open>SetParent\<close> has succeeded.\<close>

definition embed_tail :: "Desktop \<Rightarrow> HWND \<Rightarrow> HWND \<Rightarrow> Desktop" where
  "embed_tail d parentWindow game =
     (let d = ApplyEmbeddedStyle d game;
          d = (case GetClientRect d parentWindow of
                 Some parentClientRect \<Rightarrow>
                   snd (SetWindowPos d game HWND_BOTTOM 0 0
                          (rc_right parentClientRect - rc_left parentClientRect)
                          (rc_bottom parentClientRect - rc_top parentClientRect)
                          (SWP_NOACTIVATE OR SWP_SHOWWINDOW))
               | None \<Rightarrow> d);
          d = InvalidateRect d parentWindow True;
          d = InvalidateRect d game True;
          d = UpdateWindow d parentWindow
      in UpdateWindow d game)"

text \<open>The window \<open>g\<close> is live with parent \<open>p\<close>.\<close>

definition kept :: "Desktop \<Rightarrow> HWND \<Rightarrow> HWND \<Rightarrow> bool" where
  "kept d g p = (\<exists>w. windows d g = Some w \<and> w_parent w = p)"

subsection \<open>Example platforms and managers\<close>

text \<open>
  A top-level game window with handle 5 and a container window with handle 9; a platform that
  honours every call, one that denies the reparenting of 5 under 9, one that denies every call
  but that reparenting, and one on which window 5 no longer exists.
\<close>

definition game_window_example :: WINDOW where
  "game_window_example =
     \<lparr>w_parent = 0, w_style = 0x14CF0000, w_exStyle = 0x00000100,
      w_rect = \<lparr>rc_left = 100, rc_top = 100, rc_right = 740, rc_bottom = 580\<rparr>,
      w_clientRect = \<lparr>rc_left = 0, rc_top = 0, rc_right = 624, rc_bottom = 441\<rparr>\<rparr>"

definition container_example :: WINDOW where
  "container_example =
     \<lparr>w_parent = 0, w_style = 0x16CF0000, w_exStyle = 0,
      w_rect = \<lparr>rc_left = 0, rc_top = 0, rc_right = 1280, rc_bottom = 720\<rparr>,
      w_clientRect = \<lparr>rc_left = 0, rc_top = 0, rc_right = 1264, rc_bottom = 681\<rparr>\<rparr>"

definition desktop_example :: Desktop where
  "desktop_example =
     \<lparr>windows = Map.empty(5 \<mapsto> game_window_example, 9 \<mapsto> container_example),
      rejects = (\<lambda>c. False), lastError = 0, calls = []\<rparr>"

definition desktop_denying :: Desktop where
  "desktop_denying = desktop_example\<lparr>rejects := (\<lambda>c. c = C_SetParent 5 9)\<rparr>"

definition desktop_style_denied :: Desktop where
  "desktop_style_denied = desktop_example\<lparr>rejects := (\<lambda>c. c \<noteq> C_SetParent 5 9)\<rparr>"

definition desktop_game_gone :: Desktop where
  "desktop_game_gone =
     \<lparr>windows = Map.empty(9 \<mapsto> container_example),
      rejects = (\<lambda>c. False), lastError = 0, calls = []\<rparr>"

text \<open>
  A platform on which window 5 is embedded under window 9 and the platform denies giving it
  back to the desktop (\<open>SetParent\<close> with the parent \<open>NULL\<close>).
\<close>

definition desktop_restore_denied :: Desktop where
  "desktop_restore_denied =
     \<lparr>windows = Map.empty(5 \<mapsto> game_window_example\<lparr>w_parent := 9\<rparr>, 9 \<mapsto> container_example),
      rejects = (\<lambda>c. c = C_SetParent 5 0), lastError = 0, calls = []\<rparr>"

definition manager_empty :: WindowManager where
  "manager_empty = \<lparr>m_embeddedWindows = []\<rparr>"

definition manager_tracking_5 :: WindowManager where
  "manager_tracking_5 =
     \<lparr>m_embeddedWindows =
        [\<lparr>gameWindow = 5, originalParent = 0, originalStyle = 0x14CF0000,
          originalExStyle = 0x00000100,
          originalRect = \<lparr>rc_left = 100, rc_top = 100, rc_right = 740, rc_bottom = 580\<rparr>,
          wasMaximized = False\<rparr>]\<rparr>"

text \<open>
  A platform on which the container window 9 no longer exists while the game window 5 does,
  and an area to move the game window to.
\<close>

definition desktop_container_gone :: Desktop where
  "desktop_container_gone =
     \<lparr>windows = Map.empty(5 \<mapsto> game_window_example),
      rejects = (\<lambda>c. False), lastError = 0, calls = []\<rparr>"

definition area_example :: RECT where
  "area_example = \<lparr>rc_left = 0, rc_top = 0, rc_right = 800, rc_bottom = 600\<rparr>"

text \<open>
  An interface holding an injection record for process 1, and a platform on which that process
  has ended: it cannot be opened, and no thread can be created in it.
\<close>

definition interface_tracking_1 :: GameDataInterface where
  "interface_tracking_1 =
     GameDataInterface_init\<lparr>m_injectedProcesses :=
       [\<lparr>processId = 1, processHandle = 100, dllModule = 4660\<rparr>]\<rparr>"

definition kernel_process_gone :: Kernel where
  "kernel_process_gone =
     kernel_load_fails\<lparr>open_process := (\<lambda>pid. 0), create_thread := (\<lambda>h f a. 0)\<rparr>"

section \<open>Properties of the event buffer\<close>

lemmas frame_defs = frame_state_120_def frame_state_null_def frame_event_tech_def
  frame_event_after_state_def
  tag_type_gameState_def tag_type_event_def tag_frame_def tag_combo_def tag_kill_def
  tag_stock_def dq_def

lemma m_recentEvents_Notify [simp]:
  "m_recentEvents (NotifyGameEvent event st) = m_recentEvents st"
  by (simp add: NotifyGameEvent_def)

lemma m_recentEvents_ParseGameEvent:
  "m_recentEvents (ParseGameEvent tick frame st) =
     push_recent (make_event tick frame) (m_recentEvents st)"
  by (simp add: ParseGameEvent_def Let_def)

lemma push_recent_window:
  assumes "evs = drop (length hist - 100) hist"
  shows "push_recent e evs = drop (length (hist @ [e]) - 100) (hist @ [e])"
proof (cases "length hist < 100")
  case True
  with assms show ?thesis by (simp add: push_recent_def)
next
  case False
  then have len: "length evs = 100" using assms by simp
  have "tl (evs @ [e]) = drop 1 (evs @ [e])" by (simp only: One_nat_def drop_Suc drop_0)
  also have "\<dots> = drop 1 (drop (length hist - 100) (hist @ [e]))"
    using assms False by simp
  also have "\<dots> = drop (length (hist @ [e]) - 100) (hist @ [e])"
  proof -
    have "1 + (length hist - 100) = length (hist @ [e]) - 100"
      using False by simp
    then show ?thesis by (simp only: drop_drop)
  qed
  finally show ?thesis using len by (simp add: push_recent_def)
qed

lemma deliver_events_window:
  assumes "m_recentEvents st = drop (length hist - 100) hist"
  shows "m_recentEvents (deliver_events fs st) =
           drop (length (hist @ map (\<lambda>(t, f). make_event t f) fs) - 100)
                (hist @ map (\<lambda>(t, f). make_event t f) fs)"
  using assms
proof (induction fs arbitrary: st hist)
  case Nil
  then show ?case by simp
next
  case (Cons p fs)
  obtain t f where p: "p = (t, f)" by (cases p)
  have "m_recentEvents (ParseGameEvent t f st) =
          drop (length (hist @ [make_event t f]) - 100) (hist @ [make_event t f])"
    using Cons.prems by (simp add: m_recentEvents_ParseGameEvent push_recent_window)
  from Cons.IH [OF this] show ?case by (simp add: p)
qed

text \<open>
  C4. Starting from a freshly constructed interface, after any sequence of event deliveries the
  retained buffer \<open>m_recentEvents\<close> holds at most 100 events, and it is exactly the most recent
  (at most 100) of the events appended so far, in order of arrival: the oldest are the ones
  dropped.
\<close>

theorem recent_events_ring_buffer:
  "length (m_recentEvents (deliver_events fs GameDataInterface_init)) \<le> 100 \<and>
   m_recentEvents (deliver_events fs GameDataInterface_init) =
     drop (length fs - 100) (map (\<lambda>(t, f). make_event t f) fs)"
proof -
  have "m_recentEvents GameDataInterface_init = drop (length ([]::GameEvent list) - 100) []"
    by (simp add: GameDataInterface_init_def)
  from deliver_events_window [OF this, of fs]
  have eq: "m_recentEvents (deliver_events fs GameDataInterface_init) =
              drop (length fs - 100) (map (\<lambda>(t, f). make_event t f) fs)"
    by simp
  then show ?thesis by simp
qed

lemma push_recent_append:
  "push_recent event evs =
     (if length evs < 100 then evs @ [event] else tl evs @ [event])"
  by (cases evs) (auto simp: push_recent_def Let_def)

text \<open>
  C10, as stated, fails for an event frame that also has the state discriminator in its text:
  \<open>ProcessIncomingData\<close> tests for the state discriminator first and hands the frame to
  \<open>ParseGameStateUpdate\<close>. The frame \<open>{"type":"event","after":{"type":"gameState"}}\<close>
  has the event discriminator and none of the three tags; with an event callback set, the
  interface is the same after the frame as before it, the buffer and the callback's log both
  empty: no event was appended or delivered.
\<close>

theorem event_frame_taken_for_state_frame:
  "contains frame_event_after_state tag_type_event \<and>
   \<not> contains frame_event_after_state tag_combo \<and>
   \<not> contains frame_event_after_state tag_kill \<and>
   \<not> contains frame_event_after_state tag_stock \<and>
   m_gameEventCallback interface_listening \<and>
   ProcessIncomingData 5000 frame_event_after_state interface_listening =
     Inr interface_listening \<and>
   m_recentEvents interface_listening = [] \<and> eventCallback_calls interface_listening = []"
  by (simp add: contains_def frame_defs ProcessIncomingData_def ParseGameStateUpdate_def
      NotifyGameStateUpdate_def interface_listening_def GameDataInterface_init_def)

text \<open>
  C10, amended. A received frame that has the event discriminator, does not have the state
  discriminator, and has none of the tags \<open>"combo"\<close>, \<open>"kill"\<close>, \<open>"stock"\<close> is not dropped:
  \<open>ProcessIncomingData\<close> returns normally, the event is appended to the buffer (the buffer
  afterwards is the buffer before with the event added at the end, less its oldest element
  when it already held 100), and the same event is handed to the event callback when one is
  set; the event carries the type \<open>GAME_START\<close>, the enumerator of value 0 left by the value
  initialisation, and the raw frame text as its data.
\<close>

theorem ProcessIncomingData_default_type:
  assumes "contains frame tag_type_event" and "\<not> contains frame tag_type_gameState"
    and "\<not> contains frame tag_combo" and "\<not> contains frame tag_kill"
    and "\<not> contains frame tag_stock"
  shows "\<exists>st' event. ProcessIncomingData tick frame st = Inr st' \<and>
           m_recentEvents st' =
             (if length (m_recentEvents st) < 100 then m_recentEvents st @ [event]
              else tl (m_recentEvents st) @ [event]) \<and>
           eventCallback_calls st' =
             (if m_gameEventCallback st then eventCallback_calls st @ [event]
              else eventCallback_calls st) \<and>
           ev_type event = GAME_START \<and> Type_value (ev_type event) = 0 \<and>
           data event = frame"
proof -
  let ?e = "make_event tick frame"
  have ty: "ev_type ?e = GAME_START" and da: "data ?e = frame"
    using assms by (simp_all add: make_event_def value_init_GameEvent_def Let_def)
  have bu: "m_recentEvents (ParseGameEvent tick frame st) =
              (if length (m_recentEvents st) < 100 then m_recentEvents st @ [?e]
               else tl (m_recentEvents st) @ [?e])"
    by (simp only: m_recentEvents_ParseGameEvent push_recent_append)
  have cb: "eventCallback_calls (ParseGameEvent tick frame st) =
              (if m_gameEventCallback st then eventCallback_calls st @ [?e]
               else eventCallback_calls st)"
    by (simp add: ParseGameEvent_def NotifyGameEvent_def Let_def)
  have disp: "ProcessIncomingData tick frame st = Inr (ParseGameEvent tick frame st)"
    using assms(1,2) by (simp add: ProcessIncomingData_def)
  have "ProcessIncomingData tick frame st = Inr (ParseGameEvent tick frame st) \<and>
           m_recentEvents (ParseGameEvent tick frame st) =
             (if length (m_recentEvents st) < 100 then m_recentEvents st @ [?e]
              else tl (m_recentEvents st) @ [?e]) \<and>
           eventCallback_calls (ParseGameEvent tick frame st) =
             (if m_gameEventCallback st then eventCallback_calls st @ [?e]
              else eventCallback_calls st) \<and>
           ev_type ?e = GAME_START \<and> Type_value (ev_type ?e) = 0 \<and> data ?e = frame"
    using ty da bu cb disp by simp
  then show ?thesis by blast
qed

theorem ProcessIncomingData_default_type_witness:
  "contains frame_event_tech tag_type_event \<and> \<not> contains frame_event_tech tag_type_gameState \<and>
   \<not> contains frame_event_tech tag_combo \<and> \<not> contains frame_event_tech tag_kill \<and>
   \<not> contains frame_event_tech tag_stock \<and>
   (\<exists>st' event. ProcessIncomingData 5000 frame_event_tech interface_listening = Inr st' \<and>
      m_recentEvents st' = [event] \<and> eventCallback_calls st' = [event] \<and>
      ev_type event = GAME_START \<and> data event = frame_event_tech)"
proof -
  have h1: "contains frame_event_tech tag_type_event"
    by (simp add: contains_def frame_defs)
  have h2: "\<not> contains frame_event_tech tag_type_gameState"
    by (simp add: contains_def frame_defs)
  have h3: "\<not> contains frame_event_tech tag_combo"
    by (simp add: contains_def frame_defs)
  have h4: "\<not> contains frame_event_tech tag_kill"
    by (simp add: contains_def frame_defs)
  have h5: "\<not> contains frame_event_tech tag_stock"
    by (simp add: contains_def frame_defs)
  have i: "m_recentEvents interface_listening = []" "eventCallback_calls interface_listening = []"
    "m_gameEventCallback interface_listening"
    by (simp_all add: interface_listening_def GameDataInterface_init_def)
  from ProcessIncomingData_default_type [OF h1 h2 h3 h4 h5, of 5000 interface_listening]
  obtain st' event where
    "ProcessIncomingData 5000 frame_event_tech interface_listening = Inr st'"
    "m_recentEvents st' = [event]" "eventCallback_calls st' = [event]"
    "ev_type event = GAME_START" "data event = frame_event_tech"
    using i by auto
  then show ?thesis using h1 h2 h3 h4 h5 by blast
qed

section \<open>State-update frames\<close>

text \<open>
  C9. The frame of the specification's scenario, \<open>{"type":"gameState","frame":120}\<close>, sets the
  frame counter to 120. The parser is not tolerant of every frame, though: for the state frame
  \<open>{"type":"gameState","frame":null}\<close> the text between \<open>"frame":\<close> and the closing brace has
  no digit, \<open>std::stoi\<close> throws \<open>std::invalid_argument\<close>, and nothing on the way up to the
  reader thread catches it.
\<close>

theorem ProcessIncomingData_frame_value_not_numeric:
  "(\<exists>st'. ProcessIncomingData tick frame_state_120 st = Inr st' \<and>
          frameCount (m_currentGameState st') = 120) \<and>
   ProcessIncomingData tick frame_state_null st = Inl invalid_argument"
  by (simp add: frame_defs ProcessIncomingData_def ParseGameStateUpdate_def contains_def
      find_first_of_def substr_def stoi_def isspace_def isdigit_def digits_value_def
      digit_value_def NotifyGameStateUpdate_def)

section \<open>Injection failures\<close>

text \<open>
  In \<open>GameDataInterface::InjectDLLIntoProcess\<close> each of the failure cases ends the attempt with
  \<open>false\<close> and leaves the records as they were.
\<close>

lemma InjectDLLIntoProcess_failure_cases:
  assumes "open_process k pid = 0
           \<or> virtual_alloc k (open_process k pid) ((length dllPath + 1) * 2) = 0
           \<or> \<not> write_memory k (open_process k pid)
                 (virtual_alloc k (open_process k pid) ((length dllPath + 1) * 2)) dllPath
           \<or> proc_address k (module_handle k ''kernel32.dll'') ''LoadLibraryW'' = 0
           \<or> create_thread k (open_process k pid)
                 (proc_address k (module_handle k ''kernel32.dll'') ''LoadLibraryW'')
                 (virtual_alloc k (open_process k pid) ((length dllPath + 1) * 2)) = 0
           \<or> thread_exit_code k (create_thread k (open_process k pid)
                 (proc_address k (module_handle k ''kernel32.dll'') ''LoadLibraryW'')
                 (virtual_alloc k (open_process k pid) ((length dllPath + 1) * 2))) = 0"
  shows "\<exists>k'. InjectDLLIntoProcess k st pid dllPath = (False, k', st)"
  using assms by (auto simp: InjectDLLIntoProcess_def kcall_def Let_def unat_eq_0)

text \<open>
  C7. \<open>DllInjector::InjectDll\<close> of dll\_injector.cpp never reads the remote thread's exit
  value. On a platform where every step up to the remote thread succeeds and the loader call
  inside the target returns \<open>NULL\<close>, it reports success, whereas
  \<open>GameDataInterface::InjectDLLIntoProcess\<close> reports failure on the same platform.
\<close>

theorem DllInjector_InjectDll_ignores_null_module:
  "fst (DllInjector_InjectDll kernel_load_fails 4242 dll_path) = True \<and>
   fst (InjectDLLIntoProcess kernel_load_fails GameDataInterface_init 4242 dll_path) = False"
  by (simp add: DllInjector_InjectDll_def InjectDLLIntoProcess_def kernel_load_fails_def
      kcall_def Let_def)

section \<open>Sending on the channel\<close>

text \<open>
  On an invalid handle and on a broken pipe both senders return \<open>false\<close> and the transport
  takes nothing; neither keeps the message for later.
\<close>

lemma SendMessage_not_connected:
  assumes "h = INVALID_HANDLE_VALUE \<or> pipes h = None \<or> (\<exists>ch. pipes h = Some ch \<and> ch_broken ch)"
  shows "NamedPipeClient_SendMessage pipes h message = (False, pipes)"
    and "Communication_SendMessage pipes h message = (False, pipes)"
  using assms
  by (auto simp: NamedPipeClient_SendMessage_def Communication_SendMessage_def WriteFile_def)

text \<open>
  On a connected pipe, a message whose length fits a \<open>DWORD\<close> is taken in full by the transport
  and both senders return \<open>true\<close>.
\<close>

lemma SendMessage_connected:
  assumes "h \<noteq> INVALID_HANDLE_VALUE" and "pipes h = Some ch" and "\<not> ch_broken ch"
    and "length message < 2 ^ 32"
  shows "NamedPipeClient_SendMessage pipes h message =
           (True, pipes(h \<mapsto> ch\<lparr>ch_accepted := ch_accepted ch @ message\<rparr>))"
    and "Communication_SendMessage pipes h message =
           (True, pipes(h \<mapsto> ch\<lparr>ch_accepted := ch_accepted ch @ message\<rparr>))"
proof -
  have "unat (word_of_nat (length message) :: DWORD) = length message"
    using assms(4) by (simp add: unat_of_nat)
  then show "NamedPipeClient_SendMessage pipes h message =
           (True, pipes(h \<mapsto> ch\<lparr>ch_accepted := ch_accepted ch @ message\<rparr>))"
    and "Communication_SendMessage pipes h message =
           (True, pipes(h \<mapsto> ch\<lparr>ch_accepted := ch_accepted ch @ message\<rparr>))"
    using assms(1,2,3)
    by (simp_all add: NamedPipeClient_SendMessage_def Communication_SendMessage_def WriteFile_def)
qed

text \<open>
  C8. \<open>NamedPipeClient::SendMessage\<close> casts the length of the message to a \<open>DWORD\<close> and
  returns the result of \<open>WriteFile\<close> without looking at \<open>bytesWritten\<close>. For a message of
  \<open>2^32 + 5\<close> bytes on a connected pipe, five bytes are requested and written, and it returns
  \<open>true\<close> although the transport has taken only \<open>hello\<close>, not the payload;
  \<open>Communication::SendMessage\<close>, which compares \<open>bytesWritten\<close> with the length, returns
  \<open>false\<close> for the same message on the same pipe.
\<close>

theorem NamedPipeClient_SendMessage_length_truncated:
  "length message_4GiB = 2 ^ 32 + 5 \<and>
   NamedPipeClient_SendMessage pipes_connected 7 message_4GiB =
     (True, pipes_connected(7 \<mapsto> \<lparr>ch_broken = False, ch_accepted = ''hello''\<rparr>)) \<and>
   fst (Communication_SendMessage pipes_connected 7 message_4GiB) = False"
  by (simp add: NamedPipeClient_SendMessage_def Communication_SendMessage_def WriteFile_def
      pipes_connected_def message_4GiB_def INVALID_HANDLE_VALUE_def)

section \<open>Rounding to single precision\<close>

text \<open>
  What the proofs below use of \<open>round_float\<close>: it is monotone and odd, it leaves the integers
  below \<open>2^24\<close> as they are, and it moves a number by at most half a unit in the last place,
  which is at most \<open>2^-24\<close> of the number itself. A rounding at a given number is computed
  with \<open>round_float_eq\<close>, from the binade of the number and the nearest multiple of the unit
  in the last place.
\<close>

lemma binade_range: "- 126 \<le> binade n x \<and> binade n x \<le> int n - 126"
  by (induction n) auto

lemma binade_lower: "- 126 < binade n x \<Longrightarrow> 2 powi (binade n x) \<le> x"
  by (induction n) (auto split: if_splits)

lemma binade_upper: "binade n x < int n - 126 \<Longrightarrow> x < 2 powi (binade n x + 1)"
proof (induction n)
  case 0
  then show ?case by simp
next
  case (Suc n)
  show ?case
  proof (cases "2 powi (int (Suc n) - 126) \<le> x")
    case True
    then show ?thesis using Suc.prems by simp
  next
    case False
    then have b: "binade (Suc n) x = binade n x" by simp
    show ?thesis
    proof (cases "binade n x < int n - 126")
      case True
      then show ?thesis using Suc.IH b by simp
    next
      case f: False
      then have "binade n x + 1 = int (Suc n) - 126" using binade_range [of n x] by simp
      then show ?thesis using False b by (simp only: not_le)
    qed
  qed
qed



lemma round_half_even_of_int [simp]: "round_half_even (of_int k) = k"
  by (simp add: round_half_even_def Let_def)

lemma round_half_even_0 [simp]: "round_half_even 0 = 0"
  using round_half_even_of_int [of 0] by simp





lemma round_float_0 [simp]: "round_float 0 = 0"
  by (simp add: round_float_def)

lemma round_float_nonneg_eq:
  "0 \<le> x \<Longrightarrow> round_float x = of_int (round_half_even (x / ulp x)) * ulp x"
  by (cases "x = 0") (simp_all add: round_float_def)




lemma binade_less:
  assumes "x < 2 powi k" and "- 125 \<le> k"
  shows "binade n x \<le> k - 1"
proof (rule ccontr)
  assume "\<not> binade n x \<le> k - 1"
  then have k: "k \<le> binade n x" by simp
  then have "- 126 < binade n x" using assms(2) by simp
  then have "2 powi (binade n x) \<le> x" by (rule binade_lower)
  moreover have "(2::rat) powi k \<le> 2 powi (binade n x)"
    using k by (intro power_int_increasing) simp_all
  ultimately show False using assms(1) by simp
qed










lemma round_float_of_nat:
  assumes "n < 2 ^ 24"
  shows "round_float (of_nat n) = of_nat n"
proof (cases "n = 0")
  case True
  then show ?thesis by simp
next
  case False
  let ?x = "of_nat n :: rat"
  let ?e = "binade 253 ?x"
  have x1: "1 \<le> ?x" using False by simp
  have xu: "?x < 2 powi 24"
  proof -
    have "?x < of_nat (2 ^ 24)" using assms by (simp only: of_nat_less_iff)
    then show ?thesis by simp
  qed
  have e23: "?e \<le> 23" using binade_less [OF xu, of 253] by simp
  then have "?e < int 253 - 126" by simp
  then have up: "?x < 2 powi (?e + 1)" by (rule binade_upper)
  have e0: "0 \<le> ?e"
  proof (rule ccontr)
    assume "\<not> 0 \<le> ?e"
    then have "?e + 1 \<le> 0" by simp
    then have "(2::rat) powi (?e + 1) \<le> 2 powi 0" by (intro power_int_increasing) simp_all
    then show False using up x1 by simp
  qed
  define k where "k = nat (23 - ?e)"
  have ke: "?e - 23 = - int k" using e23 by (simp add: k_def)
  have u: "ulp ?x = 1 / 2 ^ k"
    by (simp add: ulp_def ke power_int_minus_divide)
  have "?x / ulp ?x = of_int (int n * 2 ^ k)" by (simp add: u)
  then have "round_half_even (?x / ulp ?x) = int n * 2 ^ k"
    by (simp only: round_half_even_of_int)
  then show ?thesis by (simp add: round_float_nonneg_eq u)
qed

lemma round_float_1 [simp]: "round_float 1 = 1"
  using round_float_of_nat [of 1] by simp





















section \<open>Lifetime of an overlay message\<close>



text \<open>The line of the specification is 1 at \<open>0.8 D\<close> and 0 at \<open>D\<close>.\<close>

lemma linear_fade_ends:
  "linear_fade (4 * n) (5 * n) = 1" "0 < D \<Longrightarrow> linear_fade D D = 0"
  by (simp_all add: linear_fade_def)




section \<open>The platform's windows under the manager's calls\<close>

lemma perform_calls [simp]: "calls (snd (perform c h f d)) = calls d @ [c]"
  by (simp add: perform_def Let_def IsWindow_def split: option.splits)

lemma perform_rejects [simp]: "rejects (snd (perform c h f d)) = rejects d"
  by (simp add: perform_def Let_def IsWindow_def split: option.splits)

lemma perform_fst: "fst (perform c h f d) = (IsWindow d h \<and> \<not> rejects d c)"
  by (auto simp: perform_def Let_def IsWindow_def split: option.splits)

lemma perform_windows:
  "windows (snd (perform c h f d)) =
     (if IsWindow d h \<and> \<not> rejects d c then (windows d)(h := map_option f (windows d h))
      else windows d)"
  by (auto simp: perform_def Let_def IsWindow_def split: option.splits)

lemma perform_IsWindow [simp]: "IsWindow (snd (perform c h f d)) g = IsWindow d g"
  by (auto simp: perform_windows IsWindow_def)

lemma perform_lastError:
  "lastError (snd (perform c h f d)) =
     (if \<not> IsWindow d h then ERROR_INVALID_WINDOW_HANDLE
      else if rejects d c then ERROR_ACCESS_DENIED else lastError d)"
  by (auto simp: perform_def Let_def IsWindow_def split: option.splits)

lemma perform_other: "g \<noteq> h \<Longrightarrow> windows (snd (perform c h f d)) g = windows d g"
  by (simp add: perform_windows)

lemma perform_live:
  "windows d h = Some w \<Longrightarrow> h \<noteq> 0 \<Longrightarrow> \<not> rejects d c \<Longrightarrow>
     windows (snd (perform c h f d)) = (windows d)(h \<mapsto> f w)"
  by (simp add: perform_windows IsWindow_def)

lemmas api_defs = SetParent_def SetWindowLong_def SetWindowPos_def ShowWindow_def
  InvalidateRect_def UpdateWindow_def

lemma split_snd: "(case p of (a, b) \<Rightarrow> f a b) = f (fst p) (snd p)"
  by (cases p) simp

lemma RestoreWindowState_rejects [simp]: "rejects (RestoreWindowState d info) = rejects d"
  by (simp add: RestoreWindowState_def api_defs Let_def split_snd)

lemma RestoreWindowState_other:
  "gameWindow info \<noteq> g \<Longrightarrow> windows (RestoreWindowState d info) g = windows d g"
  by (simp add: RestoreWindowState_def api_defs Let_def split_snd perform_other)

lemma RestoreWindowState_dead:
  "\<not> IsWindow d (gameWindow info) \<Longrightarrow> RestoreWindowState d info = d"
  by (simp add: RestoreWindowState_def)

lemma restore_flags:
  "(SWP_NOZORDER OR SWP_FRAMECHANGED) AND SWP_NOMOVE = 0"
  "(SWP_NOZORDER OR SWP_FRAMECHANGED) AND SWP_NOSIZE = 0"
  by (simp_all add: SWP_NOZORDER_def SWP_FRAMECHANGED_def SWP_NOMOVE_def SWP_NOSIZE_def)

lemma move_rect_restore:
  "move_rect (rc_left r) (rc_top r) (rc_right r - rc_left r) (rc_bottom r - rc_top r)
     (SWP_NOZORDER OR SWP_FRAMECHANGED) r0 = r"
  by (cases r) (simp add: move_rect_def restore_flags)

lemma RestoreWindowState_live:
  assumes "windows d g = Some w" and "g \<noteq> 0"
    and "\<not> list_ex (rejects d) (restore_calls info)"
    and "gameWindow info = g"
  shows "windows (RestoreWindowState d info) =
           (windows d)(g \<mapsto>
              \<lparr>w_parent = originalParent info,
               w_style = (if wasMaximized info
                          then (originalStyle info OR WS_MAXIMIZE) AND NOT WS_MINIMIZE
                          else originalStyle info),
               w_exStyle = originalExStyle info, w_rect = originalRect info,
               w_clientRect = w_clientRect w\<rparr>)"
  using assms
  by (cases w; cases "wasMaximized info")
     (simp_all add: RestoreWindowState_def restore_calls_def api_defs Let_def split_snd
        perform_windows IsWindow_def move_rect_restore)

lemma maximize_bits: "WS_MAXIMIZE = 2 ^ 24" "WS_MINIMIZE = 2 ^ 29"
  by (simp_all add: WS_MAXIMIZE_def WS_MINIMIZE_def)

lemma maximized_style_kept:
  fixes s :: LONG
  assumes "s AND WS_MINIMIZE = 0" and "s AND WS_MAXIMIZE \<noteq> 0"
  shows "(s OR WS_MAXIMIZE) AND NOT WS_MINIMIZE = s"
proof -
  have a: "\<not> bit s 29" using assms(1) unfolding maximize_bits and_exp_eq_0_iff_not_bit .
  have b: "bit s 24" using assms(2) unfolding maximize_bits and_exp_eq_0_iff_not_bit by simp
  have "(s OR 2 ^ 24) AND NOT (2 ^ 29) = s"
  proof (rule bit_word_eqI)
    fix n assume "n < LENGTH(32)"
    then show "bit ((s OR 2 ^ 24) AND NOT (2 ^ 29)) n = bit s n"
      using a b
      by (simp only: bit_and_iff bit_or_iff bit_not_iff bit_exp_iff possible_bit_word) auto
  qed
  then show ?thesis unfolding maximize_bits .
qed

lemma maximized_style:
  assumes "showCmd_of w = SW_SHOWMAXIMIZED"
  shows "(w_style w OR WS_MAXIMIZE) AND NOT WS_MINIMIZE = w_style w"
proof -
  from assms have "w_style w AND WS_MINIMIZE = 0" and "w_style w AND WS_MAXIMIZE \<noteq> 0"
    by (auto simp: showCmd_of_def SW_SHOWMAXIMIZED_def SW_SHOWMINIMIZED_def SW_SHOWNORMAL_def
        split: if_splits)
  then show ?thesis by (rule maximized_style_kept)
qed

lemma RestoreWindowState_calls:
  "IsWindow d (gameWindow info) \<Longrightarrow>
     calls (RestoreWindowState d info) = calls d @ restore_calls info"
  by (simp add: RestoreWindowState_def api_defs Let_def split_snd restore_calls_def)

lemma SaveWindowState_live:
  assumes "windows d g = Some w" and "g \<noteq> 0"
  shows "SaveWindowState d g info =
           info\<lparr>originalParent := w_parent w, originalStyle := w_style w,
                originalExStyle := w_exStyle w, originalRect := w_rect w,
                wasMaximized := (showCmd_of w = SW_SHOWMAXIMIZED)\<rparr>"
  using assms
  by (simp add: SaveWindowState_def GetParent_def GetWindowLong_def GetWindowRect_def
      GetWindowPlacement_showCmd_def IsWindow_def)

lemma EmbedGameWindow_success_record:
  assumes "EmbedGameWindow d wm container game = (True, d', wm')"
    and "\<not> list_ex (\<lambda>info. gameWindow info = game) (m_embeddedWindows wm)"
  shows "wm' = wm\<lparr>m_embeddedWindows := m_embeddedWindows wm @
                  [SaveWindowState d game (zero_EmbeddedWindowInfo\<lparr>gameWindow := game\<rparr>)]\<rparr>"
    and "IsWindow d game" and "IsWindow d container"
  using assms
  by (auto simp: EmbedGameWindow_def Let_def split_snd split: if_splits)

lemma find_append_mid:
  "\<not> list_ex P xs \<Longrightarrow> P x \<Longrightarrow> find P (xs @ x # ys) = Some x"
  by (induction xs) auto

lemma erase_first_append_mid:
  "\<not> list_ex P xs \<Longrightarrow> P x \<Longrightarrow> erase_first P (xs @ x # ys) = xs @ ys"
  by (induction xs) auto

lemma find_None_iff_list_ex: "(find P xs = None) = (\<not> list_ex P xs)"
  by (induction xs) auto

lemma erase_first_none: "\<not> list_ex P xs \<Longrightarrow> erase_first P xs = xs"
  by (induction xs) auto

lemma find_Some_P: "find P xs = Some x \<Longrightarrow> P x"
  by (induction xs) (auto split: if_splits)

lemma foldl_restore_other:
  "\<not> list_ex (\<lambda>info. gameWindow info = g) xs \<Longrightarrow>
     windows (foldl RestoreWindowState d xs) g = windows d g \<and>
     rejects (foldl RestoreWindowState d xs) = rejects d"
proof (induction xs arbitrary: d)
  case Nil
  then show ?case by simp
next
  case (Cons x xs)
  then have ne: "gameWindow x \<noteq> g" and rest: "\<not> list_ex (\<lambda>info. gameWindow info = g) xs"
    by simp_all
  from Cons.IH [OF rest, of "RestoreWindowState d x"] ne
  show ?case by (simp add: RestoreWindowState_other)
qed

lemma foldl_restore_calls: "\<exists>cs. calls (foldl RestoreWindowState d xs) = calls d @ cs"
proof (induction xs arbitrary: d)
  case Nil
  then show ?case by simp
next
  case (Cons x xs)
  from Cons.IH [of "RestoreWindowState d x"] obtain cs where
    cs: "calls (foldl RestoreWindowState (RestoreWindowState d x) xs) =
           calls (RestoreWindowState d x) @ cs" by blast
  show ?case
  proof (cases "IsWindow d (gameWindow x)")
    case True
    then show ?thesis using cs by (simp add: RestoreWindowState_calls)
  next
    case False
    then show ?thesis using cs by (simp add: RestoreWindowState_dead)
  qed
qed

lemma restore_calls_window:
  "c \<in> set (restore_calls info) \<Longrightarrow> call_window c = gameWindow info"
  by (auto simp: restore_calls_def)

lemma foldl_restore_calls_other:
  "\<not> list_ex (\<lambda>info. gameWindow info = g) xs \<Longrightarrow>
     \<exists>cs. calls (foldl RestoreWindowState d xs) = calls d @ cs \<and>
          \<not> list_ex (\<lambda>c. call_window c = g) cs"
proof (induction xs arbitrary: d)
  case Nil
  then show ?case by simp
next
  case (Cons x xs)
  then have ne: "gameWindow x \<noteq> g" and rest: "\<not> list_ex (\<lambda>info. gameWindow info = g) xs"
    by simp_all
  from Cons.IH [OF rest, of "RestoreWindowState d x"] obtain cs where
    cs: "calls (foldl RestoreWindowState (RestoreWindowState d x) xs) =
           calls (RestoreWindowState d x) @ cs"
    and no: "\<not> list_ex (\<lambda>c. call_window c = g) cs" by blast
  have own: "\<not> list_ex (\<lambda>c. call_window c = g) (restore_calls x)"
    using ne restore_calls_window [of _ x] by (auto simp: list_ex_iff)
  show ?case
  proof (cases "IsWindow d (gameWindow x)")
    case True
    then have "calls (foldl RestoreWindowState d (x # xs)) = calls d @ restore_calls x @ cs"
      using cs by (simp add: RestoreWindowState_calls)
    moreover have "\<not> list_ex (\<lambda>c. call_window c = g) (restore_calls x @ cs)"
      using own no by (auto simp: list_ex_iff)
    ultimately show ?thesis by blast
  next
    case False
    then have "calls (foldl RestoreWindowState d (x # xs)) = calls d @ cs"
      using cs by (simp add: RestoreWindowState_dead)
    then show ?thesis using no by blast
  qed
qed

lemma kept_perform:
  assumes "kept d g p" and "\<And>w. w_parent (f w) = w_parent w"
  shows "kept (snd (perform c h f d)) g p"
  using assms by (auto simp: kept_def perform_windows)

lemma kept_SetWindowLong: "kept d g p \<Longrightarrow> kept (SetWindowLong d h idx v) g p"
  unfolding SetWindowLong_def by (rule kept_perform) (auto split: LongIndex.splits)

lemma kept_SetWindowPos:
  "kept d g p \<Longrightarrow> kept (snd (SetWindowPos d h a x y cx cy fl)) g p"
  unfolding SetWindowPos_def by (rule kept_perform) auto

lemma kept_InvalidateRect: "kept d g p \<Longrightarrow> kept (InvalidateRect d h e) g p"
  unfolding InvalidateRect_def by (rule kept_perform) auto

lemma kept_UpdateWindow: "kept d g p \<Longrightarrow> kept (UpdateWindow d h) g p"
  unfolding UpdateWindow_def by (rule kept_perform) auto

lemma kept_ShowWindow: "kept d g p \<Longrightarrow> kept (ShowWindow d h cmd) g p"
  unfolding ShowWindow_def by (rule kept_perform) auto

lemma kept_SetParent_denied:
  "kept d g p \<Longrightarrow> rejects d (C_SetParent g q) \<Longrightarrow> kept (snd (SetParent d g q)) g p"
  by (simp add: SetParent_def split_snd kept_def perform_windows)

lemma RestoreWindowState_parent_denied:
  assumes "kept d (gameWindow info) p"
    and "rejects d (C_SetParent (gameWindow info) (originalParent info))"
  shows "kept (RestoreWindowState d info) (gameWindow info) p"
  using assms
  by (simp add: RestoreWindowState_def Let_def kept_SetParent_denied kept_SetWindowLong
      kept_SetWindowPos kept_ShowWindow)

lemma kept_ApplyEmbeddedStyle: "kept d g p \<Longrightarrow> kept (ApplyEmbeddedStyle d h) g p"
  by (simp add: ApplyEmbeddedStyle_def Let_def kept_SetWindowLong kept_SetWindowPos)

lemma kept_embed_tail: "kept d g p \<Longrightarrow> kept (embed_tail d c h) g p"
  by (simp add: embed_tail_def Let_def kept_ApplyEmbeddedStyle kept_SetWindowPos
      kept_InvalidateRect kept_UpdateWindow split: option.splits)

lemma rejects_ApplyEmbeddedStyle [simp]: "rejects (ApplyEmbeddedStyle d h) = rejects d"
  by (simp add: ApplyEmbeddedStyle_def Let_def api_defs)

lemma rejects_embed_tail [simp]: "rejects (embed_tail d c h) = rejects d"
  by (simp add: embed_tail_def Let_def api_defs split: option.splits)

lemma EmbedGameWindow_steps:
  assumes "IsWindow d game" and "IsWindow d container"
    and "\<not> list_ex (\<lambda>info. gameWindow info = game) (m_embeddedWindows wm)"
  shows "EmbedGameWindow d wm container game =
           (let r = SetParent (SetLastError 0 d) game container
            in if fst r = 0 \<and> GetLastError (snd r) \<noteq> 0 then (False, snd r, wm)
               else (True, embed_tail (snd r) container game,
                     wm\<lparr>m_embeddedWindows := m_embeddedWindows wm @
                          [SaveWindowState d game
                             (zero_EmbeddedWindowInfo\<lparr>gameWindow := game\<rparr>)]\<rparr>))"
  using assms by (simp add: EmbedGameWindow_def embed_tail_def Let_def split_snd)

lemma SetParent_rejected:
  assumes "IsWindow d h" and "rejects d (C_SetParent h p)"
  shows "SetParent (SetLastError 0 d) h p =
           (0, d\<lparr>lastError := ERROR_ACCESS_DENIED, calls := calls d @ [C_SetParent h p]\<rparr>)"
  using assms
  by (auto simp: SetParent_def SetLastError_def perform_def IsWindow_def Let_def)

lemma SetParent_accepted:
  assumes "windows d h = Some w" and "h \<noteq> 0" and "\<not> rejects d (C_SetParent h p)"
  shows "SetParent (SetLastError 0 d) h p =
           (w_parent w,
            d\<lparr>lastError := 0, calls := calls d @ [C_SetParent h p],
              windows := (windows d)(h \<mapsto> w\<lparr>w_parent := p\<rparr>)\<rparr>)"
  using assms
  by (simp add: SetParent_def SetLastError_def perform_def IsWindow_def GetParent_def Let_def)

lemma EmbedGameWindow_accepted:
  assumes w: "windows d game = Some w" and g0: "game \<noteq> 0" and c: "IsWindow d container"
    and fresh: "\<not> list_ex (\<lambda>info. gameWindow info = game) (m_embeddedWindows wm)"
    and ok: "\<not> rejects d (C_SetParent game container)"
  shows "\<exists>d' w'. EmbedGameWindow d wm container game =
           (True, d', wm\<lparr>m_embeddedWindows := m_embeddedWindows wm @
                          [SaveWindowState d game
                             (zero_EmbeddedWindowInfo\<lparr>gameWindow := game\<rparr>)]\<rparr>) \<and>
           windows d' game = Some w' \<and> w_parent w' = container \<and> rejects d' = rejects d"
proof -
  let ?d1 = "d\<lparr>lastError := 0, calls := calls d @ [C_SetParent game container],
              windows := (windows d)(game \<mapsto> w\<lparr>w_parent := container\<rparr>)\<rparr>"
  have live: "IsWindow d game" using w g0 by (simp add: IsWindow_def)
  have "kept ?d1 game container" by (simp add: kept_def)
  then have "kept (embed_tail ?d1 container game) game container"
    by (rule kept_embed_tail)
  then obtain w' where "windows (embed_tail ?d1 container game) game = Some w'"
    and "w_parent w' = container"
    by (auto simp: kept_def)
  moreover have "rejects (embed_tail ?d1 container game) = rejects d" by simp
  moreover have "EmbedGameWindow d wm container game =
           (True, embed_tail ?d1 container game,
            wm\<lparr>m_embeddedWindows := m_embeddedWindows wm @
                 [SaveWindowState d game (zero_EmbeddedWindowInfo\<lparr>gameWindow := game\<rparr>)]\<rparr>)"
    by (simp add: EmbedGameWindow_steps [OF live c fresh] SetParent_accepted [OF w g0 ok]
        GetLastError_def)
  ultimately show ?thesis by blast
qed

lemma example_live:
  "windows desktop_example 5 = Some game_window_example" "IsWindow desktop_example 5"
  "IsWindow desktop_example 9" "\<forall>c. \<not> rejects desktop_example c"
  "\<not> list_ex (\<lambda>info. gameWindow info = 5) (m_embeddedWindows manager_empty)"
  "IsWindow desktop_denying 5" "IsWindow desktop_denying 9"
  "rejects desktop_denying (C_SetParent 5 9)"
  by (simp_all add: desktop_example_def desktop_denying_def manager_empty_def IsWindow_def)

section \<open>Restoration fidelity\<close>

lemma foldl_restore_dead:
  assumes "\<not> IsWindow d g"
  shows "windows (foldl RestoreWindowState d xs) g = windows d g"
  using assms
proof (induction xs arbitrary: d)
  case Nil
  then show ?case by simp
next
  case (Cons x xs)
  have same: "windows (RestoreWindowState d x) g = windows d g"
  proof (cases "gameWindow x = g")
    case True
    then show ?thesis using Cons.prems by (simp add: RestoreWindowState_dead)
  next
    case False
    then show ?thesis by (simp add: RestoreWindowState_other)
  qed
  then have "\<not> IsWindow (RestoreWindowState d x) g"
    using Cons.prems by (simp add: IsWindow_def)
  from Cons.IH [OF this] same show ?case by simp
qed

text \<open>
  C1, as stated, fails in two ways. Window 5 is tracked and no longer exists: the destructor's
  restore makes no call at all, so nothing is set to the captured values, and the record is
  discarded all the same. Window 5 is tracked, live and embedded under window 9, the captured
  parent being \<open>NULL\<close>, and the platform denies the reparenting: \<open>RestoreGameWindow\<close> looks
  at the result of none of its calls, returns \<open>true\<close> and deletes the record, and the parent
  of the window is still 9.
\<close>

theorem restore_without_effect:
  "list_ex (\<lambda>info. gameWindow info = 5) (m_embeddedWindows manager_tracking_5) \<and>
   WindowManager_destroy desktop_game_gone manager_tracking_5 =
     (desktop_game_gone, manager_empty) \<and>
   calls desktop_game_gone = [] \<and> windows desktop_game_gone 5 = None \<and>
   IsWindow desktop_restore_denied 5 \<and> GetParent desktop_restore_denied 5 = 9 \<and>
   map originalParent (m_embeddedWindows manager_tracking_5) = [0] \<and>
   fst (RestoreGameWindow desktop_restore_denied manager_tracking_5 5) = True \<and>
   snd (snd (RestoreGameWindow desktop_restore_denied manager_tracking_5 5)) = manager_empty \<and>
   GetParent (fst (snd (RestoreGameWindow desktop_restore_denied manager_tracking_5 5))) 5 = 9"
proof -
  let ?r = "\<lparr>gameWindow = 5, originalParent = 0, originalStyle = 0x14CF0000,
             originalExStyle = 0x00000100,
             originalRect = \<lparr>rc_left = 100, rc_top = 100, rc_right = 740, rc_bottom = 580\<rparr>,
             wasMaximized = False\<rparr>"
  have gone: "list_ex (\<lambda>info. gameWindow info = 5) (m_embeddedWindows manager_tracking_5) \<and>
     WindowManager_destroy desktop_game_gone manager_tracking_5 =
       (desktop_game_gone, manager_empty) \<and>
     calls desktop_game_gone = [] \<and> windows desktop_game_gone 5 = None \<and>
     map originalParent (m_embeddedWindows manager_tracking_5) = [0]"
    by (simp add: WindowManager_destroy_def RestoreWindowState_def IsWindow_def
        desktop_game_gone_def manager_tracking_5_def manager_empty_def)
  have live: "IsWindow desktop_restore_denied 5" and par: "GetParent desktop_restore_denied 5 = 9"
    and k: "kept desktop_restore_denied (gameWindow ?r) 9"
    and den: "rejects desktop_restore_denied (C_SetParent (gameWindow ?r) (originalParent ?r))"
    by (simp_all add: desktop_restore_denied_def IsWindow_def GetParent_def kept_def)
  have rgw: "RestoreGameWindow desktop_restore_denied manager_tracking_5 5 =
               (True, RestoreWindowState desktop_restore_denied ?r, manager_empty)"
    by (simp add: RestoreGameWindow_def manager_tracking_5_def manager_empty_def)
  from RestoreWindowState_parent_denied [OF k den]
  have "GetParent (RestoreWindowState desktop_restore_denied ?r) 5 = 9"
    by (auto simp: kept_def GetParent_def IsWindow_def)
  then show ?thesis using gone live par rgw by simp
qed

text \<open>
  C1, amended. Let \<open>EmbedGameWindow\<close> succeed for a window \<open>game\<close> that had no record, the
  window having the data \<open>w0\<close> at that moment. The record it stores holds the parent, style,
  extended style, bounding rectangle and maximized flag of \<open>w0\<close>. On any later platform state:
  if the window is still a live window and the platform accepts the calls that restore it,
  \<open>RestoreGameWindow\<close> returns \<open>true\<close>, makes exactly the calls \<open>restore_calls\<close> and in that
  order (parent, style, extended style, bounds, maximize if captured), leaves the window with
  exactly the five captured values, and deletes the record, and the destructor makes these and
  no other calls on the window among its restorations, leaves the window with the five captured
  values, and leaves no record at all; if the window is no longer live, \<open>RestoreGameWindow\<close>
  makes no call and the destructor no call on the window, and both delete the record all the
  same. Records stored later for other windows (\<open>later\<close>) change none of this.
\<close>

theorem restore_fidelity:
  assumes emb: "EmbedGameWindow d0 wm0 container game = (True, d1, wm1)"
    and fresh: "\<not> list_ex (\<lambda>info. gameWindow info = game) (m_embeddedWindows wm0)"
    and later: "\<not> list_ex (\<lambda>info. gameWindow info = game) later"
    and w0: "windows d0 game = Some w0"
  shows "\<exists>info. find (\<lambda>info. gameWindow info = game) (m_embeddedWindows wm1 @ later) = Some info \<and>
           originalParent info = w_parent w0 \<and> originalStyle info = w_style w0 \<and>
           originalExStyle info = w_exStyle w0 \<and> originalRect info = w_rect w0 \<and>
           wasMaximized info = (showCmd_of w0 = SW_SHOWMAXIMIZED) \<and>
           (IsWindow d2 game \<and> \<not> list_ex (rejects d2) (restore_calls info) \<longrightarrow>
              (\<exists>d3 w3. RestoreGameWindow d2
                          (wm1\<lparr>m_embeddedWindows := m_embeddedWindows wm1 @ later\<rparr>) game =
                          (True, d3, wm0\<lparr>m_embeddedWindows := m_embeddedWindows wm0 @ later\<rparr>) \<and>
                 windows d3 game = Some w3 \<and> restored_to w0 w3 \<and>
                 calls d3 = calls d2 @ restore_calls info) \<and>
              (\<exists>d3 w3 cs cs'. WindowManager_destroy d2
                          (wm1\<lparr>m_embeddedWindows := m_embeddedWindows wm1 @ later\<rparr>) =
                          (d3, wm0\<lparr>m_embeddedWindows := []\<rparr>) \<and>
                 windows d3 game = Some w3 \<and> restored_to w0 w3 \<and>
                 calls d3 = calls d2 @ cs @ restore_calls info @ cs' \<and>
                 \<not> list_ex (\<lambda>c. call_window c = game) (cs @ cs'))) \<and>
           (\<not> IsWindow d2 game \<longrightarrow>
              RestoreGameWindow d2
                (wm1\<lparr>m_embeddedWindows := m_embeddedWindows wm1 @ later\<rparr>) game =
                (True, d2, wm0\<lparr>m_embeddedWindows := m_embeddedWindows wm0 @ later\<rparr>) \<and>
              (\<exists>d3 cs. WindowManager_destroy d2
                       (wm1\<lparr>m_embeddedWindows := m_embeddedWindows wm1 @ later\<rparr>) =
                       (d3, wm0\<lparr>m_embeddedWindows := []\<rparr>) \<and>
                    calls d3 = calls d2 @ cs \<and>
                    \<not> list_ex (\<lambda>c. call_window c = game) cs \<and>
                    windows d3 game = windows d2 game))"
proof -
  let ?P = "\<lambda>info. gameWindow info = game"
  let ?r = "SaveWindowState d0 game (zero_EmbeddedWindowInfo\<lparr>gameWindow := game\<rparr>)"
  let ?wm = "wm1\<lparr>m_embeddedWindows := m_embeddedWindows wm1 @ later\<rparr>"
  from EmbedGameWindow_success_record [OF emb fresh]
  have wm1: "wm1 = wm0\<lparr>m_embeddedWindows := m_embeddedWindows wm0 @ [?r]\<rparr>"
    and live0: "IsWindow d0 game" by simp_all
  from live0 have g0: "game \<noteq> 0" by (simp add: IsWindow_def)
  have r: "?r = \<lparr>gameWindow = game, originalParent = w_parent w0, originalStyle = w_style w0,
                 originalExStyle = w_exStyle w0, originalRect = w_rect w0,
                 wasMaximized = (showCmd_of w0 = SW_SHOWMAXIMIZED)\<rparr>"
    by (simp add: SaveWindowState_live [OF w0 g0] zero_EmbeddedWindowInfo_def)
  have Pr: "?P ?r" by (simp add: r)
  have gw: "gameWindow ?r = game" by (simp add: r)
  have fnd: "find ?P (m_embeddedWindows wm1 @ later) = Some ?r"
    using find_append_mid [OF fresh Pr, of later] by (simp add: wm1)
  have ers: "erase_first ?P (m_embeddedWindows wm1 @ later) = m_embeddedWindows wm0 @ later"
    using erase_first_append_mid [OF fresh Pr, of later] by (simp add: wm1)
  have rgw: "\<And>d. RestoreGameWindow d ?wm game =
                 (True, RestoreWindowState d ?r,
                  wm0\<lparr>m_embeddedWindows := m_embeddedWindows wm0 @ later\<rparr>)"
    using fnd ers by (simp add: RestoreGameWindow_def wm1)
  have dst: "\<And>d. WindowManager_destroy d ?wm =
                 (foldl RestoreWindowState
                    (RestoreWindowState (foldl RestoreWindowState d (m_embeddedWindows wm0)) ?r)
                    later,
                  wm0\<lparr>m_embeddedWindows := []\<rparr>)"
    by (simp add: WindowManager_destroy_def wm1)
  have after: "\<And>(d::Desktop) w. windows d game = Some w \<Longrightarrow>
                 \<not> list_ex (rejects d) (restore_calls ?r) \<Longrightarrow>
                 \<exists>w3. windows (RestoreWindowState d ?r) game = Some w3 \<and> restored_to w0 w3"
  proof -
    fix d :: Desktop and w
    assume w: "windows d game = Some w" and h: "\<not> list_ex (rejects d) (restore_calls ?r)"
    let ?w3 = "\<lparr>w_parent = w_parent w0, w_style = w_style w0, w_exStyle = w_exStyle w0,
                w_rect = w_rect w0, w_clientRect = w_clientRect w\<rparr>"
    have "windows (RestoreWindowState d ?r) game = Some ?w3"
      by (simp add: RestoreWindowState_live [OF w g0 h gw]) (simp add: r maximized_style)
    moreover have "restored_to w0 ?w3" by (simp add: restored_to_def showCmd_of_def)
    ultimately show "\<exists>w3. windows (RestoreWindowState d ?r) game = Some w3 \<and> restored_to w0 w3"
      by blast
  qed
  from foldl_restore_calls_other [OF fresh, of d2]
  obtain cs where cs: "calls (foldl RestoreWindowState d2 (m_embeddedWindows wm0)) = calls d2 @ cs"
    and ncs: "\<not> list_ex (\<lambda>c. call_window c = game) cs" by blast
  have alive: "IsWindow d2 game \<and> \<not> list_ex (rejects d2) (restore_calls ?r) \<longrightarrow>
              (\<exists>d3 w3. RestoreGameWindow d2 ?wm game =
                          (True, d3, wm0\<lparr>m_embeddedWindows := m_embeddedWindows wm0 @ later\<rparr>) \<and>
                 windows d3 game = Some w3 \<and> restored_to w0 w3 \<and>
                 calls d3 = calls d2 @ restore_calls ?r) \<and>
              (\<exists>d3 w3 cs cs'. WindowManager_destroy d2 ?wm = (d3, wm0\<lparr>m_embeddedWindows := []\<rparr>) \<and>
                 windows d3 game = Some w3 \<and> restored_to w0 w3 \<and>
                 calls d3 = calls d2 @ cs @ restore_calls ?r @ cs' \<and>
                 \<not> list_ex (\<lambda>c. call_window c = game) (cs @ cs'))"
  proof (intro impI, elim conjE)
    assume live2: "IsWindow d2 game"
      and honoured: "\<not> list_ex (rejects d2) (restore_calls ?r)"
    then obtain w2 where w2: "windows d2 game = Some w2" by (auto simp: IsWindow_def)
    have one: "\<exists>d3 w3. RestoreGameWindow d2 ?wm game =
                          (True, d3, wm0\<lparr>m_embeddedWindows := m_embeddedWindows wm0 @ later\<rparr>) \<and>
                 windows d3 game = Some w3 \<and> restored_to w0 w3 \<and>
                 calls d3 = calls d2 @ restore_calls ?r"
    proof -
      from after [OF w2 honoured] obtain w3 where
        "windows (RestoreWindowState d2 ?r) game = Some w3" and "restored_to w0 w3" by blast
      moreover have "calls (RestoreWindowState d2 ?r) = calls d2 @ restore_calls ?r"
        using live2 by (simp add: RestoreWindowState_calls r)
      ultimately show ?thesis using rgw [of d2] by blast
    qed
    have two: "\<exists>d3 w3 cs cs'. WindowManager_destroy d2 ?wm = (d3, wm0\<lparr>m_embeddedWindows := []\<rparr>) \<and>
                 windows d3 game = Some w3 \<and> restored_to w0 w3 \<and>
                 calls d3 = calls d2 @ cs @ restore_calls ?r @ cs' \<and>
                 \<not> list_ex (\<lambda>c. call_window c = game) (cs @ cs')"
    proof -
      let ?dx = "foldl RestoreWindowState d2 (m_embeddedWindows wm0)"
      let ?dr = "RestoreWindowState ?dx ?r"
      let ?dy = "foldl RestoreWindowState ?dr later"
      from foldl_restore_other [OF fresh, of d2]
      have wx: "windows ?dx game = Some w2"
        and hx: "\<not> list_ex (rejects ?dx) (restore_calls ?r)"
        using w2 honoured by simp_all
      have "IsWindow ?dx game" using wx g0 by (simp add: IsWindow_def)
      then have cx: "calls ?dr = calls d2 @ cs @ restore_calls ?r"
        using cs by (simp add: RestoreWindowState_calls r)
      from foldl_restore_calls_other [OF later, of ?dr]
      obtain cs' where cy: "calls ?dy = calls d2 @ cs @ restore_calls ?r @ cs'"
        and ncs': "\<not> list_ex (\<lambda>c. call_window c = game) cs'"
        using cx by auto
      from after [OF wx hx] obtain w3 where
        "windows ?dr game = Some w3" and rt: "restored_to w0 w3" by blast
      then have wy: "windows ?dy game = Some w3"
        using foldl_restore_other [OF later, of ?dr] by simp
      have "\<not> list_ex (\<lambda>c. call_window c = game) (cs @ cs')"
        using ncs ncs' by (auto simp: list_ex_iff)
      then show ?thesis using dst [of d2] wy rt cy by blast
    qed
    show "(\<exists>d3 w3. RestoreGameWindow d2 ?wm game =
                          (True, d3, wm0\<lparr>m_embeddedWindows := m_embeddedWindows wm0 @ later\<rparr>) \<and>
                 windows d3 game = Some w3 \<and> restored_to w0 w3 \<and>
                 calls d3 = calls d2 @ restore_calls ?r) \<and>
              (\<exists>d3 w3 cs cs'. WindowManager_destroy d2 ?wm = (d3, wm0\<lparr>m_embeddedWindows := []\<rparr>) \<and>
                 windows d3 game = Some w3 \<and> restored_to w0 w3 \<and>
                 calls d3 = calls d2 @ cs @ restore_calls ?r @ cs' \<and>
                 \<not> list_ex (\<lambda>c. call_window c = game) (cs @ cs'))"
      using one two by blast
  qed
  have gone: "\<not> IsWindow d2 game \<longrightarrow>
              RestoreGameWindow d2 ?wm game =
                (True, d2, wm0\<lparr>m_embeddedWindows := m_embeddedWindows wm0 @ later\<rparr>) \<and>
              (\<exists>d3 cs. WindowManager_destroy d2 ?wm = (d3, wm0\<lparr>m_embeddedWindows := []\<rparr>) \<and>
                    calls d3 = calls d2 @ cs \<and>
                    \<not> list_ex (\<lambda>c. call_window c = game) cs \<and>
                    windows d3 game = windows d2 game)"
  proof
    assume dead: "\<not> IsWindow d2 game"
    let ?dx = "foldl RestoreWindowState d2 (m_embeddedWindows wm0)"
    have "RestoreWindowState d2 ?r = d2" using dead by (simp add: RestoreWindowState_dead gw)
    then have a: "RestoreGameWindow d2 ?wm game =
                (True, d2, wm0\<lparr>m_embeddedWindows := m_embeddedWindows wm0 @ later\<rparr>)"
      using rgw [of d2] by simp
    have "windows ?dx game = windows d2 game"
      using dead by (rule foldl_restore_dead)
    then have "\<not> IsWindow ?dx game" using dead by (simp add: IsWindow_def)
    then have skip: "RestoreWindowState ?dx ?r = ?dx" by (simp add: RestoreWindowState_dead gw)
    from foldl_restore_calls_other [OF later, of ?dx]
    obtain cs' where cy: "calls (foldl RestoreWindowState ?dx later) = calls d2 @ cs @ cs'"
      and ncs': "\<not> list_ex (\<lambda>c. call_window c = game) cs'"
      using cs by auto
    have n: "\<not> list_ex (\<lambda>c. call_window c = game) (cs @ cs')"
      using ncs ncs' by (auto simp: list_ex_iff)
    have "windows (foldl RestoreWindowState d2 (m_embeddedWindows wm0 @ ?r # later)) game =
            windows d2 game"
      using dead by (rule foldl_restore_dead)
    then have b: "\<exists>d3 cs. WindowManager_destroy d2 ?wm = (d3, wm0\<lparr>m_embeddedWindows := []\<rparr>) \<and>
                    calls d3 = calls d2 @ cs \<and>
                    \<not> list_ex (\<lambda>c. call_window c = game) cs \<and>
                    windows d3 game = windows d2 game"
      using dst [of d2] skip cy n
      by (intro exI [of _ "foldl RestoreWindowState ?dx later"] exI [of _ "cs @ cs'"]) simp
    show "RestoreGameWindow d2 ?wm game =
                (True, d2, wm0\<lparr>m_embeddedWindows := m_embeddedWindows wm0 @ later\<rparr>) \<and>
              (\<exists>d3 cs. WindowManager_destroy d2 ?wm = (d3, wm0\<lparr>m_embeddedWindows := []\<rparr>) \<and>
                    calls d3 = calls d2 @ cs \<and>
                    \<not> list_ex (\<lambda>c. call_window c = game) cs \<and>
                    windows d3 game = windows d2 game)"
      using a b by blast
  qed
  show ?thesis using fnd alive gone by (simp add: r)
qed

theorem restore_fidelity_witness:
  "fst (EmbedGameWindow desktop_example manager_empty 9 5) = True \<and>
   IsWindow (fst (snd (EmbedGameWindow desktop_example manager_empty 9 5))) 5 \<and>
   (\<exists>d3 w3. RestoreGameWindow (fst (snd (EmbedGameWindow desktop_example manager_empty 9 5)))
               (snd (snd (EmbedGameWindow desktop_example manager_empty 9 5))) 5 =
               (True, d3, manager_empty) \<and>
            windows d3 5 = Some w3 \<and> restored_to game_window_example w3) \<and>
   (\<exists>d3 w3. WindowManager_destroy (fst (snd (EmbedGameWindow desktop_example manager_empty 9 5)))
               (snd (snd (EmbedGameWindow desktop_example manager_empty 9 5))) =
               (d3, manager_empty) \<and>
            windows d3 5 = Some w3 \<and> restored_to game_window_example w3) \<and>
   \<not> IsWindow desktop_game_gone 5 \<and>
   RestoreGameWindow desktop_game_gone
     (snd (snd (EmbedGameWindow desktop_example manager_empty 9 5))) 5 =
     (True, desktop_game_gone, manager_empty) \<and>
   WindowManager_destroy desktop_game_gone
     (snd (snd (EmbedGameWindow desktop_example manager_empty 9 5))) =
     (desktop_game_gone, manager_empty)"
proof -
  have "(5::nat) \<noteq> 0" by simp
  from EmbedGameWindow_accepted [OF example_live(1) this example_live(3) example_live(5)]
    example_live(4)
  obtain d1 w1 wm1 where e: "EmbedGameWindow desktop_example manager_empty 9 5 = (True, d1, wm1)"
    and w1: "windows d1 5 = Some w1" and r1: "rejects d1 = rejects desktop_example"
    by blast
  have l: "IsWindow d1 5" using w1 by (simp add: IsWindow_def)
  have h: "\<And>cs. \<not> list_ex (rejects d1) cs" using r1 example_live(4) by (simp add: list_ex_iff)
  have g: "\<not> IsWindow desktop_game_gone 5" by (simp add: IsWindow_def desktop_game_gone_def)
  have n: "\<not> list_ex (\<lambda>info. gameWindow info = 5) []" by simp
  have m: "manager_empty\<lparr>m_embeddedWindows := []\<rparr> = manager_empty"
    "manager_empty\<lparr>m_embeddedWindows := m_embeddedWindows manager_empty\<rparr> = manager_empty"
    by (simp_all add: manager_empty_def)
  from restore_fidelity [OF e example_live(5) n example_live(1), of d1] l h
  have a: "(\<exists>d3 w3. RestoreGameWindow d1 wm1 5 = (True, d3, manager_empty) \<and>
              windows d3 5 = Some w3 \<and> restored_to game_window_example w3) \<and>
           (\<exists>d3 w3. WindowManager_destroy d1 wm1 = (d3, manager_empty) \<and>
              windows d3 5 = Some w3 \<and> restored_to game_window_example w3)"
    using m by auto
  from restore_fidelity [OF e example_live(5) n example_live(1), of desktop_game_gone] g
  have b: "RestoreGameWindow desktop_game_gone wm1 5 = (True, desktop_game_gone, manager_empty)"
    and "\<exists>d3 cs. WindowManager_destroy desktop_game_gone wm1 = (d3, manager_empty) \<and>
           calls d3 = calls desktop_game_gone @ cs \<and> \<not> list_ex (\<lambda>c. call_window c = 5) cs"
    using m by auto
  then obtain d3 cs where c: "WindowManager_destroy desktop_game_gone wm1 = (d3, manager_empty)"
    by blast
  from EmbedGameWindow_success_record(1) [OF e example_live(5)]
  have "m_embeddedWindows wm1 =
          [SaveWindowState desktop_example 5 (zero_EmbeddedWindowInfo\<lparr>gameWindow := 5\<rparr>)]"
    by (simp add: manager_empty_def)
  then have "fst (WindowManager_destroy desktop_game_gone wm1) = desktop_game_gone"
    using g by (simp add: WindowManager_destroy_def RestoreWindowState_def SaveWindowState_def)
  then have c': "WindowManager_destroy desktop_game_gone wm1 = (desktop_game_gone, manager_empty)"
    using c by simp
  show ?thesis using e l g a b c' by simp
qed

section \<open>Failure of the reparenting step\<close>

text \<open>
  C6. For live windows \<open>game\<close> and \<open>container\<close> and a \<open>game\<close> without record: when the
  platform rejects \<open>SetParent\<close>, \<open>EmbedGameWindow\<close> returns \<open>false\<close>; the only call made is
  the rejected \<open>SetParent\<close>, so no style was touched, every window is as before, and no record
  was stored. When the platform accepts \<open>SetParent\<close>, then whichever of the later calls
  (styles, position, repaint) it rejects, \<open>EmbedGameWindow\<close> returns \<open>true\<close>, the record is
  stored, and the window is still reparented under the container.
\<close>

theorem EmbedGameWindow_reparent_failure:
  assumes "IsWindow d game" and "IsWindow d container"
    and "\<not> list_ex (\<lambda>info. gameWindow info = game) (m_embeddedWindows wm)"
  shows "(rejects d (C_SetParent game container) \<longrightarrow>
            (\<exists>d'. EmbedGameWindow d wm container game = (False, d', wm) \<and>
                  windows d' = windows d \<and>
                  calls d' = calls d @ [C_SetParent game container])) \<and>
         (\<not> rejects d (C_SetParent game container) \<longrightarrow>
            (\<exists>d'. EmbedGameWindow d wm container game =
                    (True, d', wm\<lparr>m_embeddedWindows := m_embeddedWindows wm @
                          [SaveWindowState d game
                             (zero_EmbeddedWindowInfo\<lparr>gameWindow := game\<rparr>)]\<rparr>) \<and>
                  GetParent d' game = container))"
proof (intro conjI impI)
  assume "rejects d (C_SetParent game container)"
  then show "\<exists>d'. EmbedGameWindow d wm container game = (False, d', wm) \<and>
                  windows d' = windows d \<and> calls d' = calls d @ [C_SetParent game container]"
    using assms
    by (simp add: EmbedGameWindow_steps SetParent_rejected GetLastError_def
        ERROR_ACCESS_DENIED_def)
next
  assume ok: "\<not> rejects d (C_SetParent game container)"
  from assms(1) obtain w where w: "windows d game = Some w" and g0: "game \<noteq> 0"
    by (auto simp: IsWindow_def)
  from EmbedGameWindow_accepted [OF w g0 assms(2) assms(3) ok]
  obtain d' w' where e: "EmbedGameWindow d wm container game =
           (True, d', wm\<lparr>m_embeddedWindows := m_embeddedWindows wm @
                          [SaveWindowState d game
                             (zero_EmbeddedWindowInfo\<lparr>gameWindow := game\<rparr>)]\<rparr>)"
    and w': "windows d' game = Some w'" "w_parent w' = container" by blast
  have "GetParent d' game = container" using w' g0 by (simp add: GetParent_def IsWindow_def)
  with e show "\<exists>d'. EmbedGameWindow d wm container game =
                    (True, d', wm\<lparr>m_embeddedWindows := m_embeddedWindows wm @
                          [SaveWindowState d game
                             (zero_EmbeddedWindowInfo\<lparr>gameWindow := game\<rparr>)]\<rparr>) \<and>
                  GetParent d' game = container" by blast
qed

theorem EmbedGameWindow_reparent_failure_witness:
  "IsWindow desktop_denying 5 \<and> IsWindow desktop_denying 9 \<and>
   rejects desktop_denying (C_SetParent 5 9) \<and>
   \<not> fst (EmbedGameWindow desktop_denying manager_empty 9 5) \<and>
   windows (fst (snd (EmbedGameWindow desktop_denying manager_empty 9 5))) =
     windows desktop_denying \<and>
   snd (snd (EmbedGameWindow desktop_denying manager_empty 9 5)) = manager_empty \<and>
   \<not> rejects desktop_style_denied (C_SetParent 5 9) \<and>
   rejects desktop_style_denied (C_UpdateWindow 5) \<and>
   fst (EmbedGameWindow desktop_style_denied manager_empty 9 5) \<and>
   GetParent (fst (snd (EmbedGameWindow desktop_style_denied manager_empty 9 5))) 5 = 9"
proof -
  have s: "IsWindow desktop_style_denied 5" "IsWindow desktop_style_denied 9"
    "\<not> rejects desktop_style_denied (C_SetParent 5 9)"
    "rejects desktop_style_denied (C_UpdateWindow 5)"
    by (simp_all add: desktop_style_denied_def desktop_example_def IsWindow_def)
  from EmbedGameWindow_reparent_failure [OF example_live(6) example_live(7) example_live(5)]
  have a: "\<not> fst (EmbedGameWindow desktop_denying manager_empty 9 5) \<and>
           windows (fst (snd (EmbedGameWindow desktop_denying manager_empty 9 5))) =
             windows desktop_denying \<and>
           snd (snd (EmbedGameWindow desktop_denying manager_empty 9 5)) = manager_empty"
    using example_live(8) by auto
  from EmbedGameWindow_reparent_failure [OF s(1) s(2) example_live(5)]
  have b: "fst (EmbedGameWindow desktop_style_denied manager_empty 9 5) \<and>
           GetParent (fst (snd (EmbedGameWindow desktop_style_denied manager_empty 9 5))) 5 = 9"
    using s(3) by auto
  show ?thesis using a b s example_live by simp
qed

section \<open>Idempotence\<close>

text \<open>
  C2. For a process id that has an injection record, \<open>InjectDLL\<close> returns \<open>true\<close> and
  changes neither the records nor the platform (no remote call is made). For a window that has
  an embedding record, \<open>EmbedGameWindow\<close> changes neither the records nor the platform
  (nothing is saved again, no call is made), and it returns \<open>true\<close>, the window and the
  container being live windows as the operation requires of its arguments: it verifies that
  first, and its result is \<open>true\<close> exactly when both are live.
\<close>

theorem inject_embed_idempotent:
  "(IsDLLInjected st pid \<longrightarrow> InjectDLL k st pid = (True, k, st)) \<and>
   (list_ex (\<lambda>info. gameWindow info = game) (m_embeddedWindows wm) \<longrightarrow>
      EmbedGameWindow d wm container game =
        (IsWindow d game \<and> IsWindow d container, d, wm))"
  by (simp add: InjectDLL_def EmbedGameWindow_def)

theorem inject_embed_idempotent_witness:
  "IsDLLInjected interface_tracking_1 1 \<and>
   InjectDLL kernel_load_fails interface_tracking_1 1 =
     (True, kernel_load_fails, interface_tracking_1) \<and>
   list_ex (\<lambda>info. gameWindow info = 5) (m_embeddedWindows manager_tracking_5) \<and>
   IsWindow desktop_example 5 \<and> IsWindow desktop_example 9 \<and>
   EmbedGameWindow desktop_example manager_tracking_5 9 5 =
     (True, desktop_example, manager_tracking_5)"
proof -
  have i: "IsDLLInjected interface_tracking_1 1"
    by (simp add: IsDLLInjected_def interface_tracking_1_def GameDataInterface_init_def)
  have l: "list_ex (\<lambda>info. gameWindow info = 5) (m_embeddedWindows manager_tracking_5)"
    by (simp add: manager_tracking_5_def)
  from inject_embed_idempotent [of interface_tracking_1 1 kernel_load_fails 5
      manager_tracking_5 desktop_example 9]
  show ?thesis using i l example_live(2,3) by simp
qed

section \<open>Operations on dead references\<close>

lemma RestoreGameWindow_dead:
  assumes "\<not> IsWindow d dead"
  shows "RestoreGameWindow d wm dead =
           (list_ex (\<lambda>info. gameWindow info = dead) (m_embeddedWindows wm), d,
            wm\<lparr>m_embeddedWindows :=
                 erase_first (\<lambda>info. gameWindow info = dead) (m_embeddedWindows wm)\<rparr>)"
proof (cases "find (\<lambda>info. gameWindow info = dead) (m_embeddedWindows wm)")
  case None
  then have n: "\<not> list_ex (\<lambda>info. gameWindow info = dead) (m_embeddedWindows wm)"
    by (simp add: find_None_iff_list_ex)
  show ?thesis using None n by (simp add: RestoreGameWindow_def erase_first_none)
next
  case (Some info)
  then have g: "gameWindow info = dead" by (rule find_Some_P)
  have l: "list_ex (\<lambda>info. gameWindow info = dead) (m_embeddedWindows wm)"
    using Some find_None_iff_list_ex [of "\<lambda>info. gameWindow info = dead" "m_embeddedWindows wm"]
    by simp
  show ?thesis using Some l assms g
    by (simp add: RestoreGameWindow_def RestoreWindowState_dead)
qed

lemma EjectDLL_result:
  "\<exists>k'. EjectDLL k st pid =
     (if IsDLLInjected st pid
      then (True, k',
            st\<lparr>m_injectedProcesses :=
                 erase_first (\<lambda>process. processId process = pid) (m_injectedProcesses st)\<rparr>)
      else (False, k, st))"
proof (cases "find (\<lambda>process. processId process = pid) (m_injectedProcesses st)")
  case None
  then have n: "\<not> list_ex (\<lambda>process. processId process = pid) (m_injectedProcesses st)"
    by (simp add: find_None_iff_list_ex)
  show ?thesis using None n
    by (simp add: EjectDLL_def EjectDLLFromProcess_def IsDLLInjected_def)
next
  case (Some it)
  have l: "list_ex (\<lambda>process. processId process = pid) (m_injectedProcesses st)"
    using Some find_None_iff_list_ex [of "\<lambda>process. processId process = pid" "m_injectedProcesses st"]
    by simp
  show ?thesis using Some l
    by (simp add: EjectDLL_def EjectDLLFromProcess_def IsDLLInjected_def Let_def)
qed

lemma InjectDLL_unopenable:
  assumes "open_process k pid = 0"
  shows "InjectDLL k st pid =
           (if IsDLLInjected st pid then (True, k, st)
            else if GetDLLPath k = [] then (False, k, st)
            else (False, kcall (K_OpenProcess pid) k, st))"
  using assms by (simp add: InjectDLL_def InjectDLLIntoProcess_def kcall_def Let_def)

lemma UpdateGameWindowPosition_dead_container:
  assumes "\<not> IsWindow d dead"
  shows "UpdateGameWindowPosition d dead game area =
           (if IsWindow d game
            then snd (SetWindowPos d game HWND_BOTTOM (rc_left area) (rc_top area)
                        (rc_right area - rc_left area) (rc_bottom area - rc_top area)
                        (SWP_NOACTIVATE OR SWP_NOOWNERZORDER))
            else d)"
  using assms
  by (simp add: UpdateGameWindowPosition_def SynchronizeWindowRefresh_def SetWindowPos_def
      Let_def)

lemma update_flags:
  "(SWP_NOACTIVATE OR SWP_NOOWNERZORDER) AND SWP_NOMOVE = 0"
  "(SWP_NOACTIVATE OR SWP_NOOWNERZORDER) AND SWP_NOSIZE = 0"
  by (simp_all add: SWP_NOACTIVATE_def SWP_NOOWNERZORDER_def SWP_NOMOVE_def SWP_NOSIZE_def)

text \<open>
  C3, as stated, fails wherever the operation does not look at the liveness of what it is
  given. Window 5 is dead and has a record: \<open>RestoreGameWindow\<close> returns \<open>true\<close> and the
  record is gone afterwards. The container 9 is dead and the game window 5 is live:
  \<open>UpdateGameWindowPosition\<close> moves window 5 to the area all the same. Process 1 has ended
  and has a record: \<open>InjectDLL\<close> returns \<open>true\<close>, and \<open>EjectDLL\<close> returns \<open>true\<close> and
  removes the record.
\<close>

theorem dead_references_not_refused:
  "\<not> IsWindow desktop_game_gone 5 \<and>
   RestoreGameWindow desktop_game_gone manager_tracking_5 5 =
     (True, desktop_game_gone, manager_empty) \<and>
   \<not> IsWindow desktop_container_gone 9 \<and>
   map_option w_rect (windows desktop_container_gone 5) =
     Some \<lparr>rc_left = 100, rc_top = 100, rc_right = 740, rc_bottom = 580\<rparr> \<and>
   map_option w_rect
     (windows (UpdateGameWindowPosition desktop_container_gone 9 5 area_example) 5) =
     Some area_example \<and>
   open_process kernel_process_gone 1 = 0 \<and>
   InjectDLL kernel_process_gone interface_tracking_1 1 =
     (True, kernel_process_gone, interface_tracking_1) \<and>
   fst (EjectDLL kernel_process_gone interface_tracking_1 1) = True \<and>
   snd (snd (EjectDLL kernel_process_gone interface_tracking_1 1)) = GameDataInterface_init"
proof -
  have r: "\<not> IsWindow desktop_game_gone 5 \<and>
           RestoreGameWindow desktop_game_gone manager_tracking_5 5 =
             (True, desktop_game_gone, manager_empty)"
    by (simp add: RestoreGameWindow_def RestoreWindowState_def IsWindow_def
        desktop_game_gone_def manager_tracking_5_def manager_empty_def)
  have c: "\<not> IsWindow desktop_container_gone 9" and g: "IsWindow desktop_container_gone 5"
    and w: "map_option w_rect (windows desktop_container_gone 5) =
              Some \<lparr>rc_left = 100, rc_top = 100, rc_right = 740, rc_bottom = 580\<rparr>"
    by (simp_all add: IsWindow_def desktop_container_gone_def game_window_example_def)
  have u: "map_option w_rect
             (windows (UpdateGameWindowPosition desktop_container_gone 9 5 area_example) 5) =
           Some area_example"
    using g
    by (simp add: UpdateGameWindowPosition_dead_container [OF c] SetWindowPos_def
        perform_windows move_rect_def update_flags)
       (simp add: desktop_container_gone_def area_example_def)
  have i: "open_process kernel_process_gone 1 = 0 \<and>
           InjectDLL kernel_process_gone interface_tracking_1 1 =
             (True, kernel_process_gone, interface_tracking_1)"
    by (simp add: InjectDLL_def IsDLLInjected_def interface_tracking_1_def
        GameDataInterface_init_def kernel_process_gone_def)
  have e: "fst (EjectDLL kernel_process_gone interface_tracking_1 1) = True \<and>
           snd (snd (EjectDLL kernel_process_gone interface_tracking_1 1)) =
             GameDataInterface_init"
    by (simp add: EjectDLL_def EjectDLLFromProcess_def interface_tracking_1_def
        GameDataInterface_init_def Let_def)
  show ?thesis using r c w u i e by simp
qed

text \<open>
  C3, amended. For a handle \<open>dead\<close> that is no live window and a process id that cannot be
  opened: embedding with \<open>dead\<close> as target or as container returns \<open>false\<close> and changes
  nothing; \<open>UpdateGameWindowPosition\<close> for the target \<open>dead\<close> makes no call and changes
  nothing (it has no result), and for the container \<open>dead\<close> and a live target it still
  repositions the target and only leaves out the refresh; \<open>RestoreGameWindow\<close> makes no call,
  returns \<open>true\<close> and deletes the record when \<open>dead\<close> has one, and returns \<open>false\<close> with
  the records unchanged when it has none; \<open>InjectDLL\<close> returns \<open>true\<close> and does nothing when
  the id has a record, and otherwise returns \<open>false\<close> and registers nothing, the one call it
  may have made being the failed attempt to open the process; \<open>EjectDLL\<close> returns \<open>false\<close>
  and changes nothing when the id has no record, and otherwise removes the record and returns
  \<open>true\<close>.
\<close>

theorem dead_reference_operations:
  assumes "\<not> IsWindow d dead" and "open_process k pid = 0"
  shows "EmbedGameWindow d wm container dead = (False, d, wm) \<and>
         EmbedGameWindow d wm dead game = (False, d, wm) \<and>
         UpdateGameWindowPosition d container dead area = d \<and>
         UpdateGameWindowPosition d dead game area =
           (if IsWindow d game
            then snd (SetWindowPos d game HWND_BOTTOM (rc_left area) (rc_top area)
                        (rc_right area - rc_left area) (rc_bottom area - rc_top area)
                        (SWP_NOACTIVATE OR SWP_NOOWNERZORDER))
            else d) \<and>
         RestoreGameWindow d wm dead =
           (if list_ex (\<lambda>info. gameWindow info = dead) (m_embeddedWindows wm)
            then (True, d,
                  wm\<lparr>m_embeddedWindows :=
                       erase_first (\<lambda>info. gameWindow info = dead) (m_embeddedWindows wm)\<rparr>)
            else (False, d, wm)) \<and>
         InjectDLL k st pid =
           (if IsDLLInjected st pid then (True, k, st)
            else if GetDLLPath k = [] then (False, k, st)
            else (False, kcall (K_OpenProcess pid) k, st)) \<and>
         (\<exists>k'. EjectDLL k st pid =
            (if IsDLLInjected st pid
             then (True, k',
                   st\<lparr>m_injectedProcesses :=
                        erase_first (\<lambda>process. processId process = pid)
                          (m_injectedProcesses st)\<rparr>)
             else (False, k, st)))"
proof -
  have e1: "EmbedGameWindow d wm container dead = (False, d, wm)"
    and e2: "EmbedGameWindow d wm dead game = (False, d, wm)"
    using assms(1) by (simp_all add: EmbedGameWindow_def)
  have u: "UpdateGameWindowPosition d container dead area = d"
    using assms(1) by (simp add: UpdateGameWindowPosition_def)
  have r: "RestoreGameWindow d wm dead =
           (if list_ex (\<lambda>info. gameWindow info = dead) (m_embeddedWindows wm)
            then (True, d,
                  wm\<lparr>m_embeddedWindows :=
                       erase_first (\<lambda>info. gameWindow info = dead) (m_embeddedWindows wm)\<rparr>)
            else (False, d, wm))"
    by (simp add: RestoreGameWindow_dead [OF assms(1)] erase_first_none)
  show ?thesis
    using e1 e2 u r UpdateGameWindowPosition_dead_container [OF assms(1)]
      InjectDLL_unopenable [OF assms(2)] EjectDLL_result [of k st pid]
    by simp
qed

theorem dead_reference_operations_witness:
  "\<not> IsWindow desktop_game_gone 5 \<and> open_process kernel_process_gone 1 = 0 \<and>
   EmbedGameWindow desktop_game_gone manager_empty 9 5 = (False, desktop_game_gone, manager_empty) \<and>
   UpdateGameWindowPosition desktop_game_gone 9 5 zero_RECT = desktop_game_gone \<and>
   RestoreGameWindow desktop_game_gone manager_empty 5 = (False, desktop_game_gone, manager_empty) \<and>
   RestoreGameWindow desktop_game_gone manager_tracking_5 5 =
     (True, desktop_game_gone, manager_empty) \<and>
   fst (InjectDLL kernel_process_gone GameDataInterface_init 1) = False \<and>
   InjectDLL kernel_process_gone interface_tracking_1 1 =
     (True, kernel_process_gone, interface_tracking_1) \<and>
   EjectDLL kernel_process_gone GameDataInterface_init 1 =
     (False, kernel_process_gone, GameDataInterface_init) \<and>
   fst (EjectDLL kernel_process_gone interface_tracking_1 1) = True"
proof -
  have a: "\<not> IsWindow desktop_game_gone 5"
    by (simp add: IsWindow_def desktop_game_gone_def)
  have b: "open_process kernel_process_gone 1 = 0" by (simp add: kernel_process_gone_def)
  have c: "\<not> IsDLLInjected GameDataInterface_init 1"
    by (simp add: IsDLLInjected_def GameDataInterface_init_def)
  have i: "IsDLLInjected interface_tracking_1 1"
    by (simp add: IsDLLInjected_def interface_tracking_1_def GameDataInterface_init_def)
  have l: "list_ex (\<lambda>info. gameWindow info = 5) (m_embeddedWindows manager_tracking_5)"
    and m: "manager_tracking_5\<lparr>m_embeddedWindows :=
               erase_first (\<lambda>info. gameWindow info = 5) (m_embeddedWindows manager_tracking_5)\<rparr> =
             manager_empty"
    and n: "\<not> list_ex (\<lambda>info. gameWindow info = 5) (m_embeddedWindows manager_empty)"
    by (simp_all add: manager_tracking_5_def manager_empty_def)
  from dead_reference_operations [OF a b,
      where wm = manager_empty and st = GameDataInterface_init and container = 9
        and game = 9 and area = zero_RECT]
  have x: "EmbedGameWindow desktop_game_gone manager_empty 9 5 =
             (False, desktop_game_gone, manager_empty) \<and>
           UpdateGameWindowPosition desktop_game_gone 9 5 zero_RECT = desktop_game_gone \<and>
           RestoreGameWindow desktop_game_gone manager_empty 5 =
             (False, desktop_game_gone, manager_empty) \<and>
           fst (InjectDLL kernel_process_gone GameDataInterface_init 1) = False \<and>
           EjectDLL kernel_process_gone GameDataInterface_init 1 =
             (False, kernel_process_gone, GameDataInterface_init)"
    using c n by auto
  from dead_reference_operations [OF a b,
      where wm = manager_tracking_5 and st = interface_tracking_1 and container = 9
        and game = 9 and area = zero_RECT]
  have y: "RestoreGameWindow desktop_game_gone manager_tracking_5 5 =
             (True, desktop_game_gone, manager_empty) \<and>
           InjectDLL kernel_process_gone interface_tracking_1 1 =
             (True, kernel_process_gone, interface_tracking_1) \<and>
           fst (EjectDLL kernel_process_gone interface_tracking_1 1) = True"
    using i l m by auto
  show ?thesis using a b x y by simp
qed

end
